theory Spec2Isabelle
  imports Main "HOL-Library.Sublist"
begin

section \<open>Data model\<close>

text \<open>
  The generator consumes Prisma's DMMF: models and embedded types, each an ordered list
  of fields. Annotations are tags inside the free-text \<open>documentation\<close> of a field or
  model. The module that declares the tags (\<^verbatim>\<open>annotations\<close>) is not among the sources;
  the constants below are the ones the source files import by name.
\<close>

datatype annotation =
    DTO_CREATE_HIDDEN
  | DTO_CREATE_OPTIONAL
  | DTO_CREATE_REQUIRED
  | DTO_ENTITY_HIDDEN
  | DTO_CONNECT_HIDDEN
  | DTO_UPDATE_HIDDEN
  | DTO_UPDATE_REQUIRED
  | DTO_RELATION_INCLUDE_ID
  | DTO_RELATION_REQUIRED
  | DTO_OVERRIDE_TYPE
  | DTO_CAST_TYPE
  | DTO_IGNORE_MODEL

text \<open>
  Modelled from the spec: the documentation text and the scan for a tag
  (\<^verbatim>\<open>isAnnotatedWith\<close>, in the missing module \<^verbatim>\<open>field-classifiers\<close>). The spec says
  that the scan looks for a recognised tag in the documentation text and that tags are
  independent and may co-occur, so the text is represented by the list of recognised
  tags that occur in it.
\<close>

record Documented =
  documentation :: "annotation list"

definition isAnnotatedWith :: "'a Documented_scheme \<Rightarrow> annotation \<Rightarrow> bool" where
  "isAnnotatedWith instance annotation = (annotation \<in> set (documentation instance))"

text \<open>
  A default-value descriptor is either a literal or an object with a generator name
  (\<^verbatim>\<open>typeof field.default === 'object'\<close> and \<^verbatim>\<open>field.default.name\<close>).
\<close>

datatype FieldDefault = DefaultLiteral string | DefaultGenerator string

text \<open>
  A DMMF field. \<open>relationName\<close> and \<open>relationFromFields\<close> are the DMMF attributes that
  the missing classifiers and the missing relation-scalar helper read.
\<close>

record Field = Documented +
  name :: string
  type :: string
  kind :: string
  isList :: bool
  isRequired :: bool
  isId :: bool
  isUnique :: bool
  isReadOnly :: bool
  isUpdatedAt :: bool
  default :: "FieldDefault option"
  relationName :: "string option"
  relationFromFields :: "string list"

text \<open>
  A \<^verbatim>\<open>ParsedField\<close> is a field with the flags of one representation: \<open>isRequired\<close>
  overridden, \<open>isNullable\<close> possibly absent (\<^verbatim>\<open>undefined\<close>), and the owning model's name.
\<close>

record ParsedField = Field +
  isNullable :: "bool option"
  modelName :: string

record Output =
  dto :: string
  entity :: string

record DMMFModel = Documented +
  model_name :: string
  model_fields :: "Field list"

record Model = DMMFModel +
  model_output :: Output

record ImportStatementParams =
  import_from :: string
  destruct :: "string list"

record ZodSchemaParams =
  model :: Model
  fieldList :: "ParsedField list"
  importList :: "ImportStatementParams list"
  lazyRelations :: "string list"

section \<open>Field classifiers\<close>

text \<open>
  Modelled from the spec: the predicates of the missing module \<^verbatim>\<open>field-classifiers\<close>.
  The spec names them after the attribute each reads (the four that share their name
  with the attribute are suffixed \<open>Field\<close> here); \<open>isIdWithDefaultValue\<close> is
  "an id and has a non-null default-value descriptor", \<open>isRequiredWithDefaultValue\<close> is
  "schema-required and has a default-value descriptor but is not an id". Relation and
  embedded-type fields are both of kind \<^verbatim>\<open>object\<close>; a relation carries a relation name.
\<close>

definition isIdField :: "'a Field_scheme \<Rightarrow> bool" where
  "isIdField field = isId field"

definition isUniqueField :: "'a Field_scheme \<Rightarrow> bool" where
  "isUniqueField field = isUnique field"

definition isReadOnlyField :: "'a Field_scheme \<Rightarrow> bool" where
  "isReadOnlyField field = isReadOnly field"

definition isUpdatedAtField :: "'a Field_scheme \<Rightarrow> bool" where
  "isUpdatedAtField field = isUpdatedAt field"

definition isRelation :: "'a Field_scheme \<Rightarrow> bool" where
  "isRelation field = (kind field = ''object'' \<and> relationName field \<noteq> None)"

definition isType :: "'a Field_scheme \<Rightarrow> bool" where
  "isType field = (kind field = ''object'' \<and> relationName field = None)"

definition isIdWithDefaultValue :: "'a Field_scheme \<Rightarrow> bool" where
  "isIdWithDefaultValue field = (isId field \<and> default field \<noteq> None)"

definition isRequiredWithDefaultValue :: "'a Field_scheme \<Rightarrow> bool" where
  "isRequiredWithDefaultValue field =
     (isRequired field \<and> default field \<noteq> None \<and> \<not> isId field)"

text \<open>\<^verbatim>\<open>hasCustomTypeOverride\<close> of \<^verbatim>\<open>compute-zod-params.ts\<close>.\<close>

definition hasCustomTypeOverride :: "'a Documented_scheme \<Rightarrow> bool" where
  "hasCustomTypeOverride field =
     (isAnnotatedWith field DTO_OVERRIDE_TYPE \<or> isAnnotatedWith field DTO_CAST_TYPE)"

section \<open>Field materializer\<close>

text \<open>
  Modelled from the spec: \<^verbatim>\<open>mapDMMFToParsedField\<close> of the missing module \<^verbatim>\<open>helpers\<close>.
  Overrides that are set take precedence over the field's own flags; every attribute an
  override does not set is copied from the field. The derivers pass no decorators.
\<close>

record Overrides =
  ov_isRequired :: "bool option"
  ov_isNullable :: "bool option"
  ov_modelName :: string

definition mapDMMFToParsedField :: "Field \<Rightarrow> Overrides \<Rightarrow> ParsedField" where
  "mapDMMFToParsedField field overrides =
     Field.extend
       (case ov_isRequired overrides of
          None \<Rightarrow> field
        | Some r \<Rightarrow> field\<lparr>isRequired := r\<rparr>)
       \<lparr>isNullable = ov_isNullable overrides, modelName = ov_modelName overrides\<rparr>"

section \<open>Validator expression compiler\<close>

text \<open>
  \<^verbatim>\<open>PrismaScalarToZod\<close> is an object literal, and \<^verbatim>\<open>PrismaScalarToZod[scalar]\<close> reads a
  property of it: an own property where the literal has the key, otherwise whatever
  \<^verbatim>\<open>Object.prototype\<close> holds under that key, otherwise \<^verbatim>\<open>undefined\<close>. A value read
  this way is therefore a string of the table or an inherited member.
\<close>

datatype JsValue = JsString string | JsInherited string

definition PrismaScalarToZod :: "(string \<times> string) list" where
  "PrismaScalarToZod =
     [(''String'', ''z.string()''),
      (''Boolean'', ''z.boolean()''),
      (''Int'', ''z.int()''),
      (''BigInt'', ''z.bigint()''),
      (''Float'', ''z.number()''),
      (''Decimal'', ''z.number()''),
      (''DateTime'', ''z.date()''),
      (''Json'', ''z.record(z.any())''),
      (''Bytes'', ''z.instanceof(Buffer)'')]"

definition ObjectPrototypeKeys :: "string list" where
  "ObjectPrototypeKeys =
     [''constructor'', ''hasOwnProperty'', ''isPrototypeOf'', ''propertyIsEnumerable'',
      ''toLocaleString'', ''toString'', ''valueOf'', ''__proto__'',
      ''__defineGetter__'', ''__defineSetter__'', ''__lookupGetter__'',
      ''__lookupSetter__'']"

definition getProperty :: "(string \<times> string) list \<Rightarrow> string \<Rightarrow> JsValue option" where
  "getProperty obj key =
     (case map_of obj key of
        Some v \<Rightarrow> Some (JsString v)
      | None \<Rightarrow> if key \<in> set ObjectPrototypeKeys then Some (JsInherited key) else None)"

text \<open>Truthiness: the empty string is falsy, functions and objects are truthy.\<close>

fun truthy :: "JsValue \<Rightarrow> bool" where
  "truthy (JsString s) = (s \<noteq> [])"
| "truthy (JsInherited k) = True"

definition scalarToZod :: "string \<Rightarrow> JsValue" where
  "scalarToZod scalar =
     (case getProperty PrismaScalarToZod scalar of
        None \<Rightarrow> JsString ''z.any()''
      | Some v \<Rightarrow> if truthy v then v else JsString ''z.any()'')"

text \<open>
  A template literal converts the interpolated value to a string. Every function of
  \<^verbatim>\<open>Object.prototype\<close> prints as native code under its own name (the constructor is
  \<^verbatim>\<open>Object\<close>); \<^verbatim>\<open>__proto__\<close> reads the prototype object itself.
\<close>

definition toStringJs :: "JsValue \<Rightarrow> string" where
  "toStringJs v =
     (case v of
        JsString s \<Rightarrow> s
      | JsInherited k \<Rightarrow>
          if k = ''__proto__'' then ''[object Object]''
          else ''function '' @ (if k = ''constructor'' then ''Object'' else k)
               @ ''() { [native code] }'')"

definition isUuidField :: "ParsedField \<Rightarrow> bool" where
  "isUuidField field =
     (if \<not> isId field then False
      else if type field \<noteq> ''String'' then False
      else (case default field of
              Some (DefaultGenerator g) \<Rightarrow> g = ''uuid''
            | _ \<Rightarrow> False))"

definition isAutoTimestamp :: "ParsedField \<Rightarrow> bool" where
  "isAutoTimestamp field =
     (if type field \<noteq> ''DateTime'' then False
      else if isUpdatedAt field then True
      else (case default field of
              Some (DefaultGenerator g) \<Rightarrow> g = ''now''
            | _ \<Rightarrow> False))"

record FieldToZodOptions =
  schemaName :: "(string \<Rightarrow> string) option"
  isUpdateSchema :: "bool option"

text \<open>The three stages of \<^verbatim>\<open>fieldToZodValidator\<close>: the base validator, the array
  wrapper, the optionality modifier.\<close>

definition baseValidator :: "ParsedField \<Rightarrow> FieldToZodOptions \<Rightarrow> JsValue" where
  "baseValidator field options =
     (let hasCustomType =
            list_ex (\<lambda>annotation. isAnnotatedWith field annotation)
              [DTO_OVERRIDE_TYPE, DTO_CAST_TYPE]
      in if hasCustomType then JsString ''z.any()''
         else if isRelation field \<or> isType field then
           (let targetSchema =
                  (case schemaName options of
                     Some namer \<Rightarrow> namer (type field)
                   | None \<Rightarrow> type field @ ''Schema'')
            in JsString (''z.lazy(() => '' @ targetSchema @ '')''))
         else if kind field = ''enum'' then
           JsString (''z.nativeEnum('' @ type field @ '')'')
         else if isUuidField field then JsString ''z.uuidv7()''
         else if isAutoTimestamp field then
           JsString ''z.iso.datetime().pipe(z.transform((v) => new Date(v)))''
         else scalarToZod (type field))"

definition arrayValidator :: "ParsedField \<Rightarrow> JsValue \<Rightarrow> JsValue" where
  "arrayValidator field validator =
     (if isList field then JsString (toStringJs validator @ ''.array()'') else validator)"

definition optionalityValidator ::
  "ParsedField \<Rightarrow> FieldToZodOptions \<Rightarrow> JsValue \<Rightarrow> JsValue" where
  "optionalityValidator field options validator =
     (let isUpdate = (case isUpdateSchema options of Some b \<Rightarrow> b | None \<Rightarrow> False);
          nullable = (case isNullable field of Some b \<Rightarrow> b | None \<Rightarrow> False)
      in if isUpdate \<and> \<not> isId field then JsString (toStringJs validator @ ''.nullish()'')
         else if nullable \<and> \<not> isRequired field then
           JsString (toStringJs validator @ ''.nullish()'')
         else if nullable then JsString (toStringJs validator @ ''.nullable()'')
         else if \<not> isRequired field then JsString (toStringJs validator @ ''.nullish()'')
         else validator)"

definition fieldToZodValidator :: "ParsedField \<Rightarrow> FieldToZodOptions \<Rightarrow> JsValue" where
  "fieldToZodValidator field options =
     optionalityValidator field options
       (arrayValidator field (baseValidator field options))"

text \<open>\<^verbatim>\<open>Array.prototype.join\<close> with a newline.\<close>

fun joinLines :: "string list \<Rightarrow> string" where
  "joinLines [] = []"
| "joinLines [l] = l"
| "joinLines (l # ls) = l @ [CHR 0x0A] @ joinLines ls"

definition fieldsToZodProps :: "ParsedField list \<Rightarrow> FieldToZodOptions \<Rightarrow> string" where
  "fieldsToZodProps fs options =
     joinLines
       (map (\<lambda>field. ''  '' @ name field @ '': ''
                      @ toStringJs (fieldToZodValidator field options) @ '','') fs)"

definition makeImportsFromZod :: "ImportStatementParams list" where
  "makeImportsFromZod = [\<lparr>import_from = ''zod'', destruct = [''z'']\<rparr>]"

section \<open>Helpers of the derivers\<close>

text \<open>
  The derivers name schemas and files through the template helpers and compute import
  paths with \<^verbatim>\<open>getRelativePath\<close>, \<^verbatim>\<open>slash\<close> and \<^verbatim>\<open>path.sep\<close>. None of these is among the
  sources (naming and path emission are external collaborators), so they are parameters.
\<close>

record Config =
  prismaClientImportPath :: string
  showDefaultValues :: bool

record TemplateHelpers =
  config :: Config
  entityZodSchemaName :: "string \<Rightarrow> string"
  plainZodSchemaName :: "string \<Rightarrow> string"
  createZodSchemaName :: "string \<Rightarrow> string"
  updateZodSchemaName :: "string \<Rightarrow> string"
  entityZodSchemaFilename :: "string \<Rightarrow> string"
  plainZodSchemaFilename :: "string \<Rightarrow> string"
  createZodSchemaFilename :: "string \<Rightarrow> string"
  updateZodSchemaFilename :: "string \<Rightarrow> string"

record PathLib =
  getRelativePath :: "string \<Rightarrow> string \<Rightarrow> string"
  slash :: "string \<Rightarrow> string"
  sep :: string

text \<open>Insertion into a JavaScript \<^verbatim>\<open>Set\<close>, kept in insertion order.\<close>

definition setAdd :: "'a list \<Rightarrow> 'a \<Rightarrow> 'a list" where
  "setAdd s x = (if x \<in> set s then s else s @ [x])"

text \<open>
  Modelled from the spec: \<^verbatim>\<open>getRelationScalars\<close> of the missing module \<^verbatim>\<open>helpers\<close>,
  the mapping from each foreign-key scalar field name to the names of the relation
  fields that it backs. The keys are in insertion order.
\<close>

definition getRelationScalars :: "Field list \<Rightarrow> (string \<times> string list) list" where
  "getRelationScalars fs =
     map (\<lambda>scalar. (scalar, map name (filter (\<lambda>f. scalar \<in> set (relationFromFields f)) fs)))
       (foldl setAdd [] (concat (map relationFromFields fs)))"

text \<open>
  Modelled from the spec: \<^verbatim>\<open>zipImportStatementParams\<close> of the missing module \<^verbatim>\<open>helpers\<close>.
  Requirements with the same source path merge into one, the named imports united in
  first-seen order; groups come out in the order of their first appearance.
\<close>

definition zipStep ::
  "ImportStatementParams list \<Rightarrow> ImportStatementParams \<Rightarrow> ImportStatementParams list" where
  "zipStep acc i =
     (if list_ex (\<lambda>e. import_from e = import_from i) acc
      then map (\<lambda>e. if import_from e = import_from i
                     then e\<lparr>destruct := foldl setAdd (destruct e) (destruct i)\<rparr> else e) acc
      else acc @ [i\<lparr>destruct := foldl setAdd [] (destruct i)\<rparr>])"

definition zipImportStatementParams ::
  "ImportStatementParams list \<Rightarrow> ImportStatementParams list" where
  "zipImportStatementParams items = foldl zipStep [] items"

definition collectEnumImports :: "ParsedField list \<Rightarrow> string \<Rightarrow> ImportStatementParams list" where
  "collectEnumImports fs clientPath =
     (let enumTypes = foldl (\<lambda>s field. if kind field = ''enum'' then setAdd s (type field) else s) [] fs
      in if length enumTypes = 0 then []
         else [\<lparr>import_from = clientPath, destruct = enumTypes\<rparr>])"

text \<open>
  The import of a target model's schema: \<^verbatim>\<open>allModels.find\<close> by name, the relative path
  from the owning model's directory to the target's, the separator and the file name.
  \<open>fromDir\<close> and \<open>toDir\<close> choose the output slots, \<open>namer\<close> and \<open>filer\<close> the template helpers.
\<close>

definition schemaImport ::
  "PathLib \<Rightarrow> Model \<Rightarrow> Model list \<Rightarrow> (Output \<Rightarrow> string) \<Rightarrow> (Output \<Rightarrow> string)
     \<Rightarrow> (string \<Rightarrow> string) \<Rightarrow> (string \<Rightarrow> string) \<Rightarrow> string \<Rightarrow> ImportStatementParams option" where
  "schemaImport lib m allModels fromDir toDir namer filer typeName =
     (case find (\<lambda>candidate. model_name candidate = typeName) allModels of
        None \<Rightarrow> None
      | Some modelToImportFrom \<Rightarrow>
          Some \<lparr>import_from =
                  slash lib (getRelativePath lib (fromDir (model_output m))
                                (toDir (model_output modelToImportFrom))
                             @ sep lib @ filer typeName),
                destruct = [namer typeName]\<rparr>)"

text \<open>The state of a \<^verbatim>\<open>reduce\<close>: the result array and the two arrays of the closure,
  \<^verbatim>\<open>imports\<close> and \<^verbatim>\<open>lazyRelations\<close>.\<close>

type_synonym Acc = "ParsedField list \<times> ImportStatementParams list \<times> string list"

definition finish :: "TemplateHelpers \<Rightarrow> Model \<Rightarrow> Acc \<Rightarrow> ZodSchemaParams" where
  "finish t m acc =
     (case acc of (fs, imps, lazy) \<Rightarrow>
        \<lparr>model = m,
         fieldList = fs,
         importList =
           zipImportStatementParams
             (makeImportsFromZod @ collectEnumImports fs (prismaClientImportPath (config t)) @ imps),
         lazyRelations = lazy\<rparr>)"

section \<open>Entity deriver\<close>

definition isAnyRelationRequired :: "Model \<Rightarrow> (string \<times> string list) list \<Rightarrow> Field \<Rightarrow> bool" where
  "isAnyRelationRequired m relationScalarFields field =
     (case map_of relationScalarFields (name field) of
        None \<Rightarrow> False
      | Some relationNames \<Rightarrow>
          list_ex (\<lambda>relationFieldName.
              case find (\<lambda>anyField. name anyField = relationFieldName) (model_fields m) of
                None \<Rightarrow> False
              | Some relationField \<Rightarrow>
                  isRequired relationField \<or> isAnnotatedWith relationField DTO_RELATION_REQUIRED)
            relationNames)"

definition entityCallback ::
  "TemplateHelpers \<Rightarrow> PathLib \<Rightarrow> Model \<Rightarrow> Model list \<Rightarrow> (string \<times> string list) list
     \<Rightarrow> Acc \<Rightarrow> Field \<Rightarrow> Acc" where
  "entityCallback t lib m allModels relationScalarFields acc field =
     (case acc of (result, imps, lazy) \<Rightarrow>
      if isAnnotatedWith field DTO_ENTITY_HIDDEN then (result, imps, lazy)
      else
        let (imps1, lazy1) =
              (if isType field \<and> type field \<noteq> model_name m \<and> \<not> hasCustomTypeOverride field
               then (case schemaImport lib m allModels entity dto
                            (plainZodSchemaName t) (plainZodSchemaFilename t) (type field) of
                       None \<Rightarrow> (imps, lazy)
                     | Some i \<Rightarrow> (imps @ [i], lazy @ [type field]))
               else (imps, lazy));
            isRelationRequired = isAnnotatedWith field DTO_RELATION_REQUIRED;
            (req1, null1) =
              (if isRelation field
               then (isRelationRequired,
                     if isList field then False
                     else if isRequired field then False else \<not> isRelationRequired)
               else (True, \<not> isRequired field));
            imps2 =
              (if isRelation field \<and> type field \<noteq> model_name m \<and> \<not> hasCustomTypeOverride field
               then (case schemaImport lib m allModels entity entity
                            (entityZodSchemaName t) (entityZodSchemaFilename t) (type field) of
                       None \<Rightarrow> imps1
                     | Some i \<Rightarrow> imps1 @ [i])
               else imps1);
            lazy2 =
              (if isRelation field \<and> \<not> hasCustomTypeOverride field
               then lazy1 @ [type field] else lazy1);
            (req2, null2) =
              (if name field \<in> set (map fst relationScalarFields)
               then (True, \<not> isAnyRelationRequired m relationScalarFields field)
               else (req1, null1))
        in (result @ [mapDMMFToParsedField field
                        \<lparr>ov_isRequired = Some req2, ov_isNullable = Some null2,
                         ov_modelName = model_name m\<rparr>],
            imps2, lazy2))"

definition entityReduce :: "TemplateHelpers \<Rightarrow> PathLib \<Rightarrow> Model \<Rightarrow> Model list \<Rightarrow> Acc" where
  "entityReduce t lib m allModels =
     foldl (entityCallback t lib m allModels (getRelationScalars (model_fields m)))
       ([], [], []) (model_fields m)"

definition computeEntityZodParams ::
  "TemplateHelpers \<Rightarrow> PathLib \<Rightarrow> Model \<Rightarrow> Model list \<Rightarrow> ZodSchemaParams" where
  "computeEntityZodParams t lib m allModels = finish t m (entityReduce t lib m allModels)"

section \<open>Plain deriver\<close>

definition plainCallback ::
  "TemplateHelpers \<Rightarrow> PathLib \<Rightarrow> Model \<Rightarrow> Model list \<Rightarrow> string list \<Rightarrow> Acc \<Rightarrow> Field \<Rightarrow> Acc" where
  "plainCallback t lib m allModels relationScalarFieldNames acc field =
     (case acc of (result, imps, lazy) \<Rightarrow>
      if isRelation field then (result, imps, lazy)
      else if \<not> isAnnotatedWith field DTO_RELATION_INCLUDE_ID
              \<and> name field \<in> set relationScalarFieldNames then (result, imps, lazy)
      else
        let (imps1, lazy1) =
              (if isType field \<and> type field \<noteq> model_name m
               then (case schemaImport lib m allModels dto dto
                            (plainZodSchemaName t) (plainZodSchemaFilename t) (type field) of
                       None \<Rightarrow> (imps, lazy)
                     | Some i \<Rightarrow> (imps @ [i], lazy @ [type field]))
               else (imps, lazy))
        in (result @ [mapDMMFToParsedField field
                        \<lparr>ov_isRequired = Some True, ov_isNullable = Some (\<not> isRequired field),
                         ov_modelName = model_name m\<rparr>],
            imps1, lazy1))"

definition plainReduce :: "TemplateHelpers \<Rightarrow> PathLib \<Rightarrow> Model \<Rightarrow> Model list \<Rightarrow> Acc" where
  "plainReduce t lib m allModels =
     foldl (plainCallback t lib m allModels (map fst (getRelationScalars (model_fields m))))
       ([], [], []) (model_fields m)"

definition computePlainZodParams ::
  "TemplateHelpers \<Rightarrow> PathLib \<Rightarrow> Model \<Rightarrow> Model list \<Rightarrow> ZodSchemaParams" where
  "computePlainZodParams t lib m allModels = finish t m (plainReduce t lib m allModels)"

section \<open>Create and update derivers\<close>

text \<open>
  Both callbacks start with an assignment to the field they visit:
  \<^verbatim>\<open>field.isReadOnly = false\<close> when the field is tagged to include the relation id and is
  a relation scalar. The field is an object of the input model, so the model is part of
  the state: a callback returns the field as it leaves it, and a deriver returns the
  model as it leaves it, next to its result. The \<open>model\<close> member of the result is a
  reference to that same object.
\<close>

definition forceWritable :: "string list \<Rightarrow> Field \<Rightarrow> Field" where
  "forceWritable relationScalarFieldNames field =
     (if isAnnotatedWith field DTO_RELATION_INCLUDE_ID
         \<and> name field \<in> set relationScalarFieldNames
      then field\<lparr>isReadOnly := False\<rparr> else field)"

definition createCallback ::
  "TemplateHelpers \<Rightarrow> PathLib \<Rightarrow> Model \<Rightarrow> Model list \<Rightarrow> string list
     \<Rightarrow> Field list \<times> Acc \<Rightarrow> Field \<Rightarrow> Field list \<times> Acc" where
  "createCallback t lib m allModels relationScalarFieldNames st field0 =
     (case st of (visited, result, imps, lazy) \<Rightarrow>
      let field = forceWritable relationScalarFieldNames field0;
          skip = (visited @ [field], result, imps, lazy)
      in
      if isReadOnlyField field then skip
      else if isAnnotatedWith field DTO_CREATE_HIDDEN then skip
      else if isRelation field then skip
      else if \<not> isAnnotatedWith field DTO_RELATION_INCLUDE_ID
              \<and> name field \<in> set relationScalarFieldNames then skip
      else
        let isDtoOptional =
              (isAnnotatedWith field DTO_CREATE_OPTIONAL
               \<or> isAnnotatedWith field DTO_CREATE_REQUIRED)
        in
        if \<not> isDtoOptional \<and> isIdWithDefaultValue field then skip
        else if \<not> isDtoOptional \<and> isUpdatedAtField field then skip
        else if \<not> isDtoOptional \<and> isRequiredWithDefaultValue field
                \<and> \<not> showDefaultValues (config t) then skip
        else
          let req0 = (if \<not> isDtoOptional \<and> isRequiredWithDefaultValue field
                      then Some False else None);
              req1 = (if isAnnotatedWith field DTO_CREATE_OPTIONAL then Some False else req0);
              req2 = (if isAnnotatedWith field DTO_CREATE_REQUIRED then Some True else req1);
              nullable = (\<not> (isRequired field \<or> req2 = Some True));
              (imps1, lazy1) =
                (if isType field \<and> type field \<noteq> model_name m
                 then (case schemaImport lib m allModels dto dto
                              (createZodSchemaName t) (createZodSchemaFilename t) (type field) of
                         None \<Rightarrow> (imps, lazy)
                       | Some i \<Rightarrow> (imps @ [i], lazy @ [type field]))
                 else (imps, lazy))
          in (visited @ [field],
              result @ [mapDMMFToParsedField field
                          \<lparr>ov_isRequired = req2, ov_isNullable = Some nullable,
                           ov_modelName = model_name m\<rparr>],
              imps1, lazy1))"

definition createReduce ::
  "TemplateHelpers \<Rightarrow> PathLib \<Rightarrow> Model \<Rightarrow> Model list \<Rightarrow> Field list \<times> Acc" where
  "createReduce t lib m allModels =
     foldl (createCallback t lib m allModels (map fst (getRelationScalars (model_fields m))))
       ([], [], [], []) (model_fields m)"

definition computeCreateZodParams ::
  "TemplateHelpers \<Rightarrow> PathLib \<Rightarrow> Model \<Rightarrow> Model list \<Rightarrow> Model \<times> ZodSchemaParams" where
  "computeCreateZodParams t lib m allModels =
     (case createReduce t lib m allModels of (visited, acc) \<Rightarrow>
        (m\<lparr>model_fields := visited\<rparr>, finish t (m\<lparr>model_fields := visited\<rparr>) acc))"

definition updateCallback ::
  "TemplateHelpers \<Rightarrow> PathLib \<Rightarrow> Model \<Rightarrow> Model list \<Rightarrow> string list
     \<Rightarrow> Field list \<times> Acc \<Rightarrow> Field \<Rightarrow> Field list \<times> Acc" where
  "updateCallback t lib m allModels relationScalarFieldNames st field0 =
     (case st of (visited, result, imps, lazy) \<Rightarrow>
      let field = forceWritable relationScalarFieldNames field0;
          skip = (visited @ [field], result, imps, lazy)
      in
      if isReadOnlyField field then skip
      else if isAnnotatedWith field DTO_UPDATE_HIDDEN then skip
      else if isIdField field then skip
      else if isRelation field then skip
      else if \<not> isAnnotatedWith field DTO_RELATION_INCLUDE_ID
              \<and> name field \<in> set relationScalarFieldNames then skip
      else
        let (req, nullable) =
              (if isAnnotatedWith field DTO_UPDATE_REQUIRED then (True, False)
               else (False, True));
            (imps1, lazy1) =
              (if isType field \<and> type field \<noteq> model_name m
               then (case schemaImport lib m allModels dto dto
                            (updateZodSchemaName t) (updateZodSchemaFilename t) (type field) of
                       None \<Rightarrow> (imps, lazy)
                     | Some i \<Rightarrow> (imps @ [i], lazy @ [type field]))
               else (imps, lazy))
        in (visited @ [field],
            result @ [mapDMMFToParsedField field
                        \<lparr>ov_isRequired = Some req, ov_isNullable = Some nullable,
                         ov_modelName = model_name m\<rparr>],
            imps1, lazy1))"

definition updateReduce ::
  "TemplateHelpers \<Rightarrow> PathLib \<Rightarrow> Model \<Rightarrow> Model list \<Rightarrow> Field list \<times> Acc" where
  "updateReduce t lib m allModels =
     foldl (updateCallback t lib m allModels (map fst (getRelationScalars (model_fields m))))
       ([], [], [], []) (model_fields m)"

definition computeUpdateZodParams ::
  "TemplateHelpers \<Rightarrow> PathLib \<Rightarrow> Model \<Rightarrow> Model list \<Rightarrow> Model \<times> ZodSchemaParams" where
  "computeUpdateZodParams t lib m allModels =
     (case updateReduce t lib m allModels of (visited, acc) \<Rightarrow>
        (m\<lparr>model_fields := visited\<rparr>, finish t (m\<lparr>model_fields := visited\<rparr>) acc))"

text \<open>The options \<^verbatim>\<open>generateUpdateZodSchema\<close> passes to \<^verbatim>\<open>fieldsToZodProps\<close>.\<close>

definition updateSchemaOptions :: "TemplateHelpers \<Rightarrow> FieldToZodOptions" where
  "updateSchemaOptions t =
     \<lparr>schemaName = Some (updateZodSchemaName t), isUpdateSchema = Some True\<rparr>"

section \<open>Connect deriver\<close>

definition allUniqueFields :: "Model \<Rightarrow> Field list" where
  "allUniqueFields m =
     (let idFields =
            filter (\<lambda>field. \<not> isAnnotatedWith field DTO_CONNECT_HIDDEN \<and> isIdField field)
              (model_fields m);
          uniqueFields =
            filter (\<lambda>field. \<not> isAnnotatedWith field DTO_CONNECT_HIDDEN \<and> isUniqueField field)
              (model_fields m)
      in foldl (\<lambda>acc field. if \<not> list_ex (\<lambda>f. name f = name field) acc
                              then acc @ [field] else acc)
           idFields uniqueFields)"

definition computeConnectZodParams :: "TemplateHelpers \<Rightarrow> Model \<Rightarrow> ZodSchemaParams" where
  "computeConnectZodParams t m =
     (let candidates = allUniqueFields m;
          overrides =
            (if length candidates > 1
             then \<lparr>ov_isRequired = Some False, ov_isNullable = Some False,
                   ov_modelName = model_name m\<rparr>
             else \<lparr>ov_isRequired = None, ov_isNullable = None, ov_modelName = model_name m\<rparr>)
      in finish t m (map (\<lambda>field. mapDMMFToParsedField field overrides) candidates, [], []))"

section \<open>Orchestrator\<close>

text \<open>
  \<^verbatim>\<open>run\<close> assembles the list of output files or throws. The name and the content of a
  file come from template helpers and renderers that are not among the sources; a file
  is identified here by its directory, by what it renders and by the model it renders.
  The naming-case transform and \<^verbatim>\<open>path.join\<close> are parameters.
\<close>

datatype FileRole =
    ConnectDto | CreateDto | UpdateDto | EntityFile | PlainDto
  | ConnectZodSchema | CreateZodSchema | UpdateZodSchema | PlainZodSchema | EntityZodSchema
  | EnumsFile

record WriteableFileSpecs =
  fileDir :: string
  fileRole :: FileRole
  fileModel :: string

datatype RunError = EntityOnlyWithComplexTypes | UnknownGenerateFileTypes

record Datamodel =
  models :: "DMMFModel list"
  types :: "DMMFModel list"
  enums :: "string list"

record RunParam =
  outputDir :: string
  dmmf :: Datamodel
  outputToNestJsResourceStructure :: bool
  flatResourceStructure :: bool
  transformFileNameCase :: "string \<Rightarrow> string"
  pathJoin :: "string list \<Rightarrow> string"
  noDependencies :: bool
  generateFileTypes :: string
  generateZodSchemas :: bool

definition resourceDir :: "RunParam \<Rightarrow> string \<Rightarrow> string \<Rightarrow> string" where
  "resourceDir p owner sub =
     (if outputToNestJsResourceStructure p
      then (if flatResourceStructure p
            then pathJoin p [outputDir p, transformFileNameCase p owner]
            else pathJoin p [outputDir p, transformFileNameCase p owner, sub])
      else outputDir p)"

definition filteredTypes :: "RunParam \<Rightarrow> Model list" where
  "filteredTypes p =
     map (\<lambda>m. DMMFModel.extend m
                 \<lparr>model_output = \<lparr>dto = resourceDir p (model_name m) ''dto'', entity = []\<rparr>\<rparr>)
       (filter (\<lambda>m. \<not> isAnnotatedWith m DTO_IGNORE_MODEL) (types (dmmf p)))"

definition filteredModels :: "RunParam \<Rightarrow> Model list" where
  "filteredModels p =
     map (\<lambda>m. DMMFModel.extend m
                 \<lparr>model_output = \<lparr>dto = resourceDir p (model_name m) ''dto'',
                                   entity = resourceDir p (model_name m) ''entities''\<rparr>\<rparr>)
       (filter (\<lambda>m. \<not> isAnnotatedWith m DTO_IGNORE_MODEL) (models (dmmf p)))"

definition dtoFile :: "Model \<Rightarrow> FileRole \<Rightarrow> WriteableFileSpecs" where
  "dtoFile m role = \<lparr>fileDir = dto (model_output m), fileRole = role, fileModel = model_name m\<rparr>"

definition entityFile :: "Model \<Rightarrow> FileRole \<Rightarrow> WriteableFileSpecs" where
  "entityFile m role =
     \<lparr>fileDir = entity (model_output m), fileRole = role, fileModel = model_name m\<rparr>"

definition typeFilesOf :: "RunParam \<Rightarrow> Model \<Rightarrow> WriteableFileSpecs list" where
  "typeFilesOf p m =
     [dtoFile m CreateDto, dtoFile m UpdateDto, dtoFile m PlainDto]
     @ (if generateZodSchemas p
        then [dtoFile m CreateZodSchema, dtoFile m UpdateZodSchema, dtoFile m PlainZodSchema]
        else [])"

definition modelFilesOf :: "RunParam \<Rightarrow> Model \<Rightarrow> RunError + WriteableFileSpecs list" where
  "modelFilesOf p m =
     (let connectDto = dtoFile m ConnectDto;
          createDto = dtoFile m CreateDto;
          updateDto = dtoFile m UpdateDto;
          entityF = entityFile m EntityFile;
          plainDto = dtoFile m PlainDto;
          switch =
            (if generateFileTypes p = ''all''
             then Inr [connectDto, createDto, updateDto, entityF, plainDto]
             else if generateFileTypes p = ''dto''
             then Inr [connectDto, createDto, updateDto, plainDto]
             else if generateFileTypes p = ''entity'' then Inr [entityF]
             else Inl UnknownGenerateFileTypes)
      in case switch of
           Inl e \<Rightarrow> Inl e
         | Inr files \<Rightarrow>
             Inr (files
                  @ (if generateZodSchemas p \<and> generateFileTypes p \<noteq> ''entity''
                     then [dtoFile m ConnectZodSchema, dtoFile m CreateZodSchema,
                           dtoFile m UpdateZodSchema, dtoFile m PlainZodSchema]
                     else [])
                  @ (if generateZodSchemas p
                        \<and> (generateFileTypes p = ''all'' \<or> generateFileTypes p = ''entity'')
                     then [entityFile m EntityZodSchema]
                     else [])))"

text \<open>\<^verbatim>\<open>Array.prototype.map\<close> with a callback that may throw: the first throw ends it.\<close>

fun mapThrowing :: "('a \<Rightarrow> 'e + 'b) \<Rightarrow> 'a list \<Rightarrow> 'e + 'b list" where
  "mapThrowing f [] = Inr []"
| "mapThrowing f (x # xs) =
     (case f x of
        Inl e \<Rightarrow> Inl e
      | Inr y \<Rightarrow> (case mapThrowing f xs of Inl e \<Rightarrow> Inl e | Inr ys \<Rightarrow> Inr (y # ys)))"

definition run :: "RunParam \<Rightarrow> RunError + WriteableFileSpecs list" where
  "run p =
     (if generateFileTypes p = ''entity'' \<and> length (filteredTypes p) \<noteq> 0
      then Inl EntityOnlyWithComplexTypes
      else
        let enumFiles =
              (if noDependencies p \<and> length (enums (dmmf p)) \<noteq> 0
               then [\<lparr>fileDir = outputDir p, fileRole = EnumsFile, fileModel = []\<rparr>]
               else []);
            typeFiles = map (typeFilesOf p) (filteredTypes p)
        in case mapThrowing (modelFilesOf p) (filteredModels p) of
             Inl e \<Rightarrow> Inl e
           | Inr modelFiles \<Rightarrow> Inr (concat typeFiles @ concat modelFiles @ enumFiles))"

section \<open>What one callback contributes\<close>

text \<open>
  Each callback either returns its accumulator unchanged or appends to it. The
  definitions of this section name, for one field, when a callback returns early, the
  overrides it materializes the field with, and what it pushes to \<^verbatim>\<open>imports\<close> and
  \<^verbatim>\<open>lazyRelations\<close>. They are proved equal to the callbacks below and serve the proofs.
\<close>

definition entityOverrides :: "Model \<Rightarrow> (string \<times> string list) list \<Rightarrow> Field \<Rightarrow> Overrides" where
  "entityOverrides m rsf f =
     \<lparr>ov_isRequired =
        Some (if name f \<in> set (map fst rsf) then True
              else if isRelation f then isAnnotatedWith f DTO_RELATION_REQUIRED
              else True),
      ov_isNullable =
        Some (if name f \<in> set (map fst rsf) then \<not> isAnyRelationRequired m rsf f
              else if isRelation f
              then (\<not> isList f \<and> \<not> isRequired f \<and> \<not> isAnnotatedWith f DTO_RELATION_REQUIRED)
              else \<not> isRequired f),
      ov_modelName = model_name m\<rparr>"

definition optionToList :: "'a option \<Rightarrow> 'a list" where
  "optionToList x = (case x of None \<Rightarrow> [] | Some y \<Rightarrow> [y])"

definition entityImports ::
  "TemplateHelpers \<Rightarrow> PathLib \<Rightarrow> Model \<Rightarrow> Model list \<Rightarrow> Field \<Rightarrow> ImportStatementParams list" where
  "entityImports t lib m ams f =
     (if isAnnotatedWith f DTO_ENTITY_HIDDEN \<or> hasCustomTypeOverride f \<or> type f = model_name m
      then []
      else (if isType f
            then optionToList (schemaImport lib m ams entity dto
                                 (plainZodSchemaName t) (plainZodSchemaFilename t) (type f))
            else [])
           @ (if isRelation f
              then optionToList (schemaImport lib m ams entity entity
                                   (entityZodSchemaName t) (entityZodSchemaFilename t) (type f))
              else []))"

definition entityLazy :: "Model \<Rightarrow> Model list \<Rightarrow> Field \<Rightarrow> string list" where
  "entityLazy m ams f =
     (if isAnnotatedWith f DTO_ENTITY_HIDDEN \<or> hasCustomTypeOverride f then []
      else (if isType f \<and> type f \<noteq> model_name m
               \<and> find (\<lambda>candidate. model_name candidate = type f) ams \<noteq> None
            then [type f] else [])
           @ (if isRelation f then [type f] else []))"

definition typeImports ::
  "PathLib \<Rightarrow> Model \<Rightarrow> Model list \<Rightarrow> (string \<Rightarrow> string) \<Rightarrow> (string \<Rightarrow> string) \<Rightarrow> Field
     \<Rightarrow> ImportStatementParams list" where
  "typeImports lib m ams namer filer f =
     (if isType f \<and> type f \<noteq> model_name m
      then optionToList (schemaImport lib m ams dto dto namer filer (type f))
      else [])"

definition typeLazy :: "Model \<Rightarrow> Model list \<Rightarrow> Field \<Rightarrow> string list" where
  "typeLazy m ams f =
     (if isType f \<and> type f \<noteq> model_name m
         \<and> find (\<lambda>candidate. model_name candidate = type f) ams \<noteq> None
      then [type f] else [])"

definition plainSkips :: "string list \<Rightarrow> Field \<Rightarrow> bool" where
  "plainSkips rs f =
     (isRelation f \<or> (\<not> isAnnotatedWith f DTO_RELATION_INCLUDE_ID \<and> name f \<in> set rs))"

definition plainOverrides :: "Model \<Rightarrow> Field \<Rightarrow> Overrides" where
  "plainOverrides m f =
     \<lparr>ov_isRequired = Some True, ov_isNullable = Some (\<not> isRequired f),
      ov_modelName = model_name m\<rparr>"

definition createSkips :: "TemplateHelpers \<Rightarrow> string list \<Rightarrow> Field \<Rightarrow> bool" where
  "createSkips t rs g =
     (isReadOnlyField g \<or> isAnnotatedWith g DTO_CREATE_HIDDEN \<or> isRelation g
      \<or> (\<not> isAnnotatedWith g DTO_RELATION_INCLUDE_ID \<and> name g \<in> set rs)
      \<or> (\<not> isAnnotatedWith g DTO_CREATE_OPTIONAL \<and> \<not> isAnnotatedWith g DTO_CREATE_REQUIRED
          \<and> (isIdWithDefaultValue g \<or> isUpdatedAtField g
              \<or> (isRequiredWithDefaultValue g \<and> \<not> showDefaultValues (config t)))))"

definition createOverrides :: "Model \<Rightarrow> Field \<Rightarrow> Overrides" where
  "createOverrides m g =
     \<lparr>ov_isRequired =
        (if isAnnotatedWith g DTO_CREATE_REQUIRED then Some True
         else if isAnnotatedWith g DTO_CREATE_OPTIONAL then Some False
         else if isRequiredWithDefaultValue g then Some False else None),
      ov_isNullable = Some (\<not> (isRequired g \<or> isAnnotatedWith g DTO_CREATE_REQUIRED)),
      ov_modelName = model_name m\<rparr>"

definition updateSkips :: "string list \<Rightarrow> Field \<Rightarrow> bool" where
  "updateSkips rs g =
     (isReadOnlyField g \<or> isAnnotatedWith g DTO_UPDATE_HIDDEN \<or> isIdField g \<or> isRelation g
      \<or> (\<not> isAnnotatedWith g DTO_RELATION_INCLUDE_ID \<and> name g \<in> set rs))"

definition updateOverrides :: "Model \<Rightarrow> Field \<Rightarrow> Overrides" where
  "updateOverrides m g =
     \<lparr>ov_isRequired = Some (isAnnotatedWith g DTO_UPDATE_REQUIRED),
      ov_isNullable = Some (\<not> isAnnotatedWith g DTO_UPDATE_REQUIRED),
      ov_modelName = model_name m\<rparr>"

section \<open>Example inputs\<close>

text \<open>Concrete helpers, fields and models at which the theorems below are instantiated.\<close>

definition exampleHelpers :: TemplateHelpers where
  "exampleHelpers =
     \<lparr>config = \<lparr>prismaClientImportPath = ''@prisma/client'', showDefaultValues = False\<rparr>,
      entityZodSchemaName = (\<lambda>n. n @ ''EntitySchema''),
      plainZodSchemaName = (\<lambda>n. n @ ''DtoSchema''),
      createZodSchemaName = (\<lambda>n. ''Create'' @ n @ ''DtoSchema''),
      updateZodSchemaName = (\<lambda>n. ''Update'' @ n @ ''DtoSchema''),
      entityZodSchemaFilename = (\<lambda>n. n @ ''.entity.schema''),
      plainZodSchemaFilename = (\<lambda>n. n @ ''.dto.schema''),
      createZodSchemaFilename = (\<lambda>n. ''create-'' @ n @ ''.dto.schema''),
      updateZodSchemaFilename = (\<lambda>n. ''update-'' @ n @ ''.dto.schema'')\<rparr>"

definition examplePaths :: PathLib where
  "examplePaths = \<lparr>getRelativePath = (\<lambda>a b. ''.''), slash = (\<lambda>s. s), sep = ''/''\<rparr>"

definition scalarField :: "string \<Rightarrow> string \<Rightarrow> Field" where
  "scalarField n ty =
     \<lparr>documentation = [], name = n, type = ty, kind = ''scalar'', isList = False,
      isRequired = True, isId = False, isUnique = False, isReadOnly = False,
      isUpdatedAt = False, default = None, relationName = None, relationFromFields = []\<rparr>"

definition exampleModel :: "string \<Rightarrow> Field list \<Rightarrow> Model" where
  "exampleModel n fs =
     \<lparr>documentation = [], model_name = n, model_fields = fs,
      model_output = \<lparr>dto = ''out'', entity = ''out''\<rparr>\<rparr>"

definition titleField :: Field where
  "titleField = (scalarField ''title'' ''String'')\<lparr>documentation := [DTO_UPDATE_REQUIRED]\<rparr>"

definition postModel :: Model where
  "postModel = exampleModel ''Post'' [titleField]"

definition bioField :: Field where
  "bioField = (scalarField ''bio'' ''String'')\<lparr>isRequired := False\<rparr>"

definition profileModel :: Model where
  "profileModel = exampleModel ''Profile'' [bioField]"

definition authorIdField :: Field where
  "authorIdField =
     (scalarField ''authorId'' ''Int'')
       \<lparr>documentation := [DTO_RELATION_INCLUDE_ID], isReadOnly := True\<rparr>"

definition authorField :: Field where
  "authorField =
     (scalarField ''author'' ''User'')
       \<lparr>kind := ''object'', relationName := Some ''ArticleToUser'',
        relationFromFields := [''authorId'']\<rparr>"

definition articleModel :: Model where
  "articleModel = exampleModel ''Article'' [authorIdField, authorField]"

definition addressField :: Field where
  "addressField =
     (scalarField ''address'' ''Address'')
       \<lparr>documentation := [DTO_OVERRIDE_TYPE], kind := ''object''\<rparr>"

definition customerModel :: Model where
  "customerModel = exampleModel ''Customer'' [addressField]"

definition addressType :: Model where
  "addressType = exampleModel ''Address'' [scalarField ''street'' ''String'']"

definition parentField :: Field where
  "parentField =
     (scalarField ''parent'' ''Category'')
       \<lparr>kind := ''object'', isRequired := False, relationName := Some ''CategoryTree''\<rparr>"

definition categoryModel :: Model where
  "categoryModel = exampleModel ''Category'' [parentField]"

definition ownerField :: Field where
  "ownerField =
     (scalarField ''owner'' ''User'')
       \<lparr>kind := ''object'', relationName := Some ''PetToUser''\<rparr>"

definition homeField :: Field where
  "homeField = (scalarField ''home'' ''Address'')\<lparr>kind := ''object''\<rparr>"

definition petModel :: Model where
  "petModel = exampleModel ''Pet'' [ownerField, homeField]"

definition userModel :: Model where
  "userModel = exampleModel ''User'' [scalarField ''name'' ''String'']"

definition serialField :: Field where
  "serialField =
     (scalarField ''id'' ''Int'')
       \<lparr>isId := True, default := Some (DefaultGenerator ''autoincrement'')\<rparr>"

definition counterModel :: Model where
  "counterModel = exampleModel ''Counter'' [serialField]"

definition serialRequiredField :: Field where
  "serialRequiredField = serialField\<lparr>documentation := [DTO_CREATE_REQUIRED]\<rparr>"

definition ticketModel :: Model where
  "ticketModel = exampleModel ''Ticket'' [serialRequiredField]"

definition serialHiddenField :: Field where
  "serialHiddenField =
     serialField\<lparr>documentation := [DTO_CREATE_REQUIRED, DTO_CREATE_HIDDEN]\<rparr>"

definition invoiceModel :: Model where
  "invoiceModel = exampleModel ''Invoice'' [serialHiddenField]"

definition passportIdField :: Field where
  "passportIdField =
     serialField\<lparr>documentation := [DTO_CREATE_REQUIRED], isReadOnly := True\<rparr>"

definition holderField :: Field where
  "holderField =
     (scalarField ''holder'' ''User'')
       \<lparr>kind := ''object'', relationName := Some ''PassportToUser'',
        relationFromFields := [''id'']\<rparr>"

definition passportModel :: Model where
  "passportModel = exampleModel ''Passport'' [passportIdField, holderField]"

definition emailField :: Field where
  "emailField = (scalarField ''email'' ''String'')\<lparr>isRequired := False, isUnique := True\<rparr>"

definition subscriberModel :: Model where
  "subscriberModel = exampleModel ''Subscriber'' [emailField]"

definition handleField :: Field where
  "handleField = (scalarField ''handle'' ''String'')\<lparr>isUnique := True\<rparr>"

definition phoneField :: Field where
  "phoneField = (scalarField ''phone'' ''String'')\<lparr>isUnique := True\<rparr>"

definition accountModel :: Model where
  "accountModel = exampleModel ''Account'' [serialField, handleField, phoneField]"

definition memberModel :: Model where
  "memberModel = exampleModel ''Member'' [handleField]"

definition typesOnlyRun :: RunParam where
  "typesOnlyRun =
     \<lparr>outputDir = ''out'',
      dmmf = \<lparr>models = [],
              types = [\<lparr>documentation = [], model_name = ''Address'',
                        model_fields = [scalarField ''street'' ''String'']\<rparr>],
              enums = []\<rparr>,
      outputToNestJsResourceStructure = False,
      flatResourceStructure = False,
      transformFileNameCase = (\<lambda>s. s),
      pathJoin = concat,
      noDependencies = False,
      generateFileTypes = ''bogus'',
      generateZodSchemas = False\<rparr>"

definition entityOnlyRun :: RunParam where
  "entityOnlyRun = typesOnlyRun\<lparr>generateFileTypes := ''entity''\<rparr>"

definition oneModelRun :: RunParam where
  "oneModelRun =
     typesOnlyRun
       \<lparr>dmmf := \<lparr>models = [\<lparr>documentation = [], model_name = ''User'',
                              model_fields = [scalarField ''name'' ''String'']\<rparr>],
                  types = [], enums = []\<rparr>\<rparr>"

section \<open>The callbacks and the reductions\<close>

subsection \<open>Folds that append\<close>

lemma foldl_append3:
  assumes "\<And>r i l x. f (r, i, l) x = (r @ a x, i @ b x, l @ c x)"
  shows "foldl f (r, i, l) xs
           = (r @ concat (map a xs), i @ concat (map b xs), l @ concat (map c xs))"
  by (induction xs arbitrary: r i l) (simp_all add: assms)

lemma foldl_append4:
  assumes "\<And>v r i l x. f (v, r, i, l) x = (v @ [w x], r @ a x, i @ b x, l @ c x)"
  shows "foldl f (v, r, i, l) xs
           = (v @ map w xs, r @ concat (map a xs), i @ concat (map b xs), l @ concat (map c xs))"
  by (induction xs arbitrary: v r i l) (simp_all add: assms)

lemma in_concat_map_if:
  "y \<in> set (concat (map (\<lambda>x. if c x then [] else [h x]) xs)) \<longleftrightarrow> (\<exists>x \<in> set xs. \<not> c x \<and> y = h x)"
  by (induction xs) auto

subsection \<open>Attributes that the materializer and the forced write keep\<close>

lemma mapDMMF_attrs:
  "name (mapDMMFToParsedField f ov) = name f"
  "type (mapDMMFToParsedField f ov) = type f"
  "kind (mapDMMFToParsedField f ov) = kind f"
  "isList (mapDMMFToParsedField f ov) = isList f"
  "isId (mapDMMFToParsedField f ov) = isId f"
  "isReadOnly (mapDMMFToParsedField f ov) = isReadOnly f"
  "documentation (mapDMMFToParsedField f ov) = documentation f"
  "isRequired (mapDMMFToParsedField f ov) = (case ov_isRequired ov of None \<Rightarrow> isRequired f | Some r \<Rightarrow> r)"
  "isNullable (mapDMMFToParsedField f ov) = ov_isNullable ov"
  "modelName (mapDMMFToParsedField f ov) = ov_modelName ov"
  by (cases f; simp add: mapDMMFToParsedField_def Field.defs split: option.splits)+

lemma forceWritable_attrs:
  "name (forceWritable rs f) = name f"
  "isId (forceWritable rs f) = isId f"
  "isRequired (forceWritable rs f) = isRequired f"
  "documentation (forceWritable rs f) = documentation f"
  "kind (forceWritable rs f) = kind f"
  "type (forceWritable rs f) = type f"
  "relationName (forceWritable rs f) = relationName f"
  "relationFromFields (forceWritable rs f) = relationFromFields f"
  "default (forceWritable rs f) = default f"
  "isUpdatedAt (forceWritable rs f) = isUpdatedAt f"
  "isList (forceWritable rs f) = isList f"
  by (simp_all add: forceWritable_def)

lemma classifiers_forceWritable:
  "isAnnotatedWith (forceWritable rs f) tag = isAnnotatedWith f tag"
  "isRelation (forceWritable rs f) = isRelation f"
  "isType (forceWritable rs f) = isType f"
  "isIdWithDefaultValue (forceWritable rs f) = isIdWithDefaultValue f"
  "isRequiredWithDefaultValue (forceWritable rs f) = isRequiredWithDefaultValue f"
  "isUpdatedAtField (forceWritable rs f) = isUpdatedAtField f"
  "isIdField (forceWritable rs f) = isIdField f"
  by (simp_all add: isAnnotatedWith_def isRelation_def isType_def isIdWithDefaultValue_def
      isRequiredWithDefaultValue_def isUpdatedAtField_def isIdField_def forceWritable_attrs)

lemma finish_simps:
  "fieldList (finish t m (fs, imps, lazy)) = fs"
  "lazyRelations (finish t m (fs, imps, lazy)) = lazy"
  "model (finish t m (fs, imps, lazy)) = m"
  by (simp_all add: finish_def)

subsection \<open>The callbacks, one field at a time\<close>

lemma entityCallback_eq:
  "entityCallback t lib m ams rsf (r, i, l) f =
     (r @ (if isAnnotatedWith f DTO_ENTITY_HIDDEN then []
           else [mapDMMFToParsedField f (entityOverrides m rsf f)]),
      i @ entityImports t lib m ams f,
      l @ entityLazy m ams f)"
  by (auto simp: entityCallback_def entityOverrides_def entityImports_def entityLazy_def
      optionToList_def Let_def schemaImport_def split: option.splits)

lemma plainCallback_eq:
  "plainCallback t lib m ams rs (r, i, l) f =
     (r @ (if plainSkips rs f then [] else [mapDMMFToParsedField f (plainOverrides m f)]),
      i @ (if plainSkips rs f then []
           else typeImports lib m ams (plainZodSchemaName t) (plainZodSchemaFilename t) f),
      l @ (if plainSkips rs f then [] else typeLazy m ams f))"
  by (auto simp: plainCallback_def plainSkips_def plainOverrides_def typeImports_def typeLazy_def
      optionToList_def Let_def schemaImport_def split: option.splits)

lemma createCallback_eq:
  "createCallback t lib m ams rs (v, r, i, l) f =
     (v @ [forceWritable rs f],
      r @ (if createSkips t rs (forceWritable rs f) then []
           else [mapDMMFToParsedField (forceWritable rs f)
                   (createOverrides m (forceWritable rs f))]),
      i @ (if createSkips t rs (forceWritable rs f) then []
           else typeImports lib m ams (createZodSchemaName t) (createZodSchemaFilename t)
                  (forceWritable rs f)),
      l @ (if createSkips t rs (forceWritable rs f) then []
           else typeLazy m ams (forceWritable rs f)))"
  by (auto simp: createCallback_def createSkips_def createOverrides_def typeImports_def
      typeLazy_def optionToList_def Let_def schemaImport_def split: option.splits)

lemma updateCallback_eq:
  "updateCallback t lib m ams rs (v, r, i, l) f =
     (v @ [forceWritable rs f],
      r @ (if updateSkips rs (forceWritable rs f) then []
           else [mapDMMFToParsedField (forceWritable rs f)
                   (updateOverrides m (forceWritable rs f))]),
      i @ (if updateSkips rs (forceWritable rs f) then []
           else typeImports lib m ams (updateZodSchemaName t) (updateZodSchemaFilename t)
                  (forceWritable rs f)),
      l @ (if updateSkips rs (forceWritable rs f) then []
           else typeLazy m ams (forceWritable rs f)))"
  by (auto simp: updateCallback_def updateSkips_def updateOverrides_def typeImports_def
      typeLazy_def optionToList_def Let_def schemaImport_def split: option.splits)

subsection \<open>The reductions\<close>

lemma entityReduce_eq:
  "entityReduce t lib m ams =
     (concat (map (\<lambda>f. if isAnnotatedWith f DTO_ENTITY_HIDDEN then []
                        else [mapDMMFToParsedField f
                                (entityOverrides m (getRelationScalars (model_fields m)) f)])
                (model_fields m)),
      concat (map (entityImports t lib m ams) (model_fields m)),
      concat (map (entityLazy m ams) (model_fields m)))"
  unfolding entityReduce_def
  by (simp add: foldl_append3[where f = "entityCallback t lib m ams rsf" for rsf,
        OF entityCallback_eq])

lemma plainReduce_eq:
  "plainReduce t lib m ams =
     (concat (map (\<lambda>f. if plainSkips (map fst (getRelationScalars (model_fields m))) f then []
                        else [mapDMMFToParsedField f (plainOverrides m f)])
                (model_fields m)),
      concat (map (\<lambda>f. if plainSkips (map fst (getRelationScalars (model_fields m))) f then []
                        else typeImports lib m ams (plainZodSchemaName t)
                               (plainZodSchemaFilename t) f)
                (model_fields m)),
      concat (map (\<lambda>f. if plainSkips (map fst (getRelationScalars (model_fields m))) f then []
                        else typeLazy m ams f)
                (model_fields m)))"
  unfolding plainReduce_def
  by (simp add: foldl_append3[where f = "plainCallback t lib m ams rs" for rs,
        OF plainCallback_eq])

lemma createReduce_eq:
  "createReduce t lib m ams =
     (map (forceWritable (map fst (getRelationScalars (model_fields m)))) (model_fields m),
      concat (map (\<lambda>f. if createSkips t (map fst (getRelationScalars (model_fields m)))
                             (forceWritable (map fst (getRelationScalars (model_fields m))) f)
                        then []
                        else [mapDMMFToParsedField
                                (forceWritable (map fst (getRelationScalars (model_fields m))) f)
                                (createOverrides m
                                   (forceWritable (map fst (getRelationScalars (model_fields m))) f))])
                (model_fields m)),
      concat (map (\<lambda>f. if createSkips t (map fst (getRelationScalars (model_fields m)))
                             (forceWritable (map fst (getRelationScalars (model_fields m))) f)
                        then []
                        else typeImports lib m ams (createZodSchemaName t)
                               (createZodSchemaFilename t)
                               (forceWritable (map fst (getRelationScalars (model_fields m))) f))
                (model_fields m)),
      concat (map (\<lambda>f. if createSkips t (map fst (getRelationScalars (model_fields m)))
                             (forceWritable (map fst (getRelationScalars (model_fields m))) f)
                        then []
                        else typeLazy m ams
                               (forceWritable (map fst (getRelationScalars (model_fields m))) f))
                (model_fields m)))"
  unfolding createReduce_def
  by (simp add: foldl_append4[where f = "createCallback t lib m ams rs" for rs,
        OF createCallback_eq])

lemma updateReduce_eq:
  "updateReduce t lib m ams =
     (map (forceWritable (map fst (getRelationScalars (model_fields m)))) (model_fields m),
      concat (map (\<lambda>f. if updateSkips (map fst (getRelationScalars (model_fields m)))
                             (forceWritable (map fst (getRelationScalars (model_fields m))) f)
                        then []
                        else [mapDMMFToParsedField
                                (forceWritable (map fst (getRelationScalars (model_fields m))) f)
                                (updateOverrides m
                                   (forceWritable (map fst (getRelationScalars (model_fields m))) f))])
                (model_fields m)),
      concat (map (\<lambda>f. if updateSkips (map fst (getRelationScalars (model_fields m)))
                             (forceWritable (map fst (getRelationScalars (model_fields m))) f)
                        then []
                        else typeImports lib m ams (updateZodSchemaName t)
                               (updateZodSchemaFilename t)
                               (forceWritable (map fst (getRelationScalars (model_fields m))) f))
                (model_fields m)),
      concat (map (\<lambda>f. if updateSkips (map fst (getRelationScalars (model_fields m)))
                             (forceWritable (map fst (getRelationScalars (model_fields m))) f)
                        then []
                        else typeLazy m ams
                               (forceWritable (map fst (getRelationScalars (model_fields m))) f))
                (model_fields m)))"
  unfolding updateReduce_def
  by (simp add: foldl_append4[where f = "updateCallback t lib m ams rs" for rs,
        OF updateCallback_eq])

subsection \<open>Which fields a deriver puts out\<close>


lemma plain_member:
  "pf \<in> set (fieldList (computePlainZodParams t lib m ams)) \<longleftrightarrow>
     (\<exists>f \<in> set (model_fields m). \<not> plainSkips (map fst (getRelationScalars (model_fields m))) f
        \<and> pf = mapDMMFToParsedField f (plainOverrides m f))"
  by (auto simp: computePlainZodParams_def plainReduce_eq finish_simps in_concat_map_if)

lemma create_member:
  "pf \<in> set (fieldList (snd (computeCreateZodParams t lib m ams))) \<longleftrightarrow>
     (\<exists>f \<in> set (model_fields m).
        \<not> createSkips t (map fst (getRelationScalars (model_fields m)))
             (forceWritable (map fst (getRelationScalars (model_fields m))) f)
        \<and> pf = mapDMMFToParsedField
                 (forceWritable (map fst (getRelationScalars (model_fields m))) f)
                 (createOverrides m
                    (forceWritable (map fst (getRelationScalars (model_fields m))) f)))"
  by (auto simp: computeCreateZodParams_def createReduce_eq finish_simps in_concat_map_if)

lemma update_member:
  "pf \<in> set (fieldList (snd (computeUpdateZodParams t lib m ams))) \<longleftrightarrow>
     (\<exists>f \<in> set (model_fields m).
        \<not> updateSkips (map fst (getRelationScalars (model_fields m)))
             (forceWritable (map fst (getRelationScalars (model_fields m))) f)
        \<and> pf = mapDMMFToParsedField
                 (forceWritable (map fst (getRelationScalars (model_fields m))) f)
                 (updateOverrides m
                    (forceWritable (map fst (getRelationScalars (model_fields m))) f)))"
  by (auto simp: computeUpdateZodParams_def updateReduce_eq finish_simps in_concat_map_if)

section \<open>Update optionality\<close>

lemma update_compile_nullish:
  "\<not> isId pf \<Longrightarrow>
   fieldToZodValidator pf (updateSchemaOptions t) =
     JsString (toStringJs (arrayValidator pf (baseValidator pf (updateSchemaOptions t)))
               @ ''.nullish()'')"
  by (simp add: fieldToZodValidator_def optionalityValidator_def updateSchemaOptions_def)

text \<open>
  C1, as stated, fails: a field tagged "required in update" is derived required and
  non-nullable, yet the update schema compiles it with the update flag set, and the
  compiled expression still carries \<^verbatim>\<open>.nullish()\<close>.
\<close>

theorem update_required_tag_counterexample:
  "isAnnotatedWith titleField DTO_UPDATE_REQUIRED
   \<and> \<not> isId titleField
   \<and> fieldsToZodProps
        (fieldList (snd (computeUpdateZodParams exampleHelpers examplePaths postModel [postModel])))
        (updateSchemaOptions exampleHelpers)
      = ''  title: z.string().nullish(),''"
  by code_simp

text \<open>
  C1, amended: every field of the update representation is a non-id field, and its
  validator expression, compiled with the update flag as \<^verbatim>\<open>generateUpdateZodSchema\<close>
  does, ends with the combined optional+nullable modifier \<^verbatim>\<open>.nullish()\<close>, whether or not
  the field carries the "required in update" tag. The tag decides the derived flags only:
  \<open>isRequired\<close> is true and \<open>isNullable\<close> is false exactly for a tagged field.
\<close>

theorem update_optionality:
  assumes "pf \<in> set (fieldList (snd (computeUpdateZodParams t lib m allModels)))"
  shows "\<not> isId pf
     \<and> suffix ''.nullish()'' (toStringJs (fieldToZodValidator pf (updateSchemaOptions t)))
     \<and> isRequired pf = isAnnotatedWith pf DTO_UPDATE_REQUIRED
     \<and> isNullable pf = Some (\<not> isAnnotatedWith pf DTO_UPDATE_REQUIRED)"
proof -
  let ?rs = "map fst (getRelationScalars (model_fields m))"
  from assms obtain f where
    keep: "\<not> updateSkips ?rs (forceWritable ?rs f)" and
    pf: "pf = mapDMMFToParsedField (forceWritable ?rs f) (updateOverrides m (forceWritable ?rs f))"
    unfolding update_member by blast
  have noid: "\<not> isId pf"
    using keep by (simp add: pf mapDMMF_attrs updateSkips_def isIdField_def)
  have tag: "isAnnotatedWith pf DTO_UPDATE_REQUIRED
               = isAnnotatedWith (forceWritable ?rs f) DTO_UPDATE_REQUIRED"
    by (simp add: pf isAnnotatedWith_def mapDMMF_attrs)
  have "suffix ''.nullish()'' (toStringJs (fieldToZodValidator pf (updateSchemaOptions t)))"
    by (simp add: update_compile_nullish[OF noid] toStringJs_def suffix_def)
  moreover have "isRequired pf = isAnnotatedWith pf DTO_UPDATE_REQUIRED"
    unfolding tag by (simp add: pf mapDMMF_attrs updateOverrides_def)
  moreover have "isNullable pf = Some (\<not> isAnnotatedWith pf DTO_UPDATE_REQUIRED)"
    unfolding tag by (simp add: pf mapDMMF_attrs updateOverrides_def)
  ultimately show ?thesis using noid by simp
qed

text \<open>The amended C1 at the post model, whose only field is tagged.\<close>

theorem update_optionality_witness:
  "fieldList (snd (computeUpdateZodParams exampleHelpers examplePaths postModel [postModel]))
     = [mapDMMFToParsedField titleField (updateOverrides postModel titleField)]
   \<and> suffix ''.nullish()''
        (toStringJs (fieldToZodValidator
           (mapDMMFToParsedField titleField (updateOverrides postModel titleField))
           (updateSchemaOptions exampleHelpers)))
   \<and> isRequired (mapDMMFToParsedField titleField (updateOverrides postModel titleField))"
proof -
  have out: "fieldList (snd (computeUpdateZodParams exampleHelpers examplePaths postModel [postModel]))
     = [mapDMMFToParsedField titleField (updateOverrides postModel titleField)]"
    by code_simp
  have tagged: "isAnnotatedWith (mapDMMFToParsedField titleField (updateOverrides postModel titleField))
                  DTO_UPDATE_REQUIRED"
    by code_simp
  have "mapDMMFToParsedField titleField (updateOverrides postModel titleField)
          \<in> set (fieldList (snd (computeUpdateZodParams exampleHelpers examplePaths postModel [postModel])))"
    unfolding out by simp
  from update_optionality[OF this] out tagged show ?thesis by simp
qed

section \<open>Entity: required and nullable\<close>




section \<open>Plain: inclusion and flags\<close>

text \<open>
  C4, as stated, fails: a schema-optional scalar is derived required in the plain
  representation, so the derived \<open>isRequired\<close> is not the schema-level one.
\<close>

theorem plain_required_counterexample:
  "\<not> isRequired bioField
   \<and> map isRequired
        (fieldList (computePlainZodParams exampleHelpers examplePaths profileModel [profileModel]))
      = [True]"
  by code_simp

text \<open>
  C4, amended: the fields of the plain representation are the fields of the model that
  are not relations and, if they are foreign-key scalars, carry the "include relation id"
  tag. Every one of them is derived required (\<open>isRequired\<close> is true whatever the
  schema-level flag), and its derived \<open>isNullable\<close> is the negation of the schema-level
  \<open>isRequired\<close>.
\<close>

theorem plain_fields:
  "pf \<in> set (fieldList (computePlainZodParams t lib m allModels)) \<longleftrightarrow>
     (\<exists>f \<in> set (model_fields m).
        \<not> isRelation f
        \<and> (name f \<in> fst ` set (getRelationScalars (model_fields m))
             \<longrightarrow> isAnnotatedWith f DTO_RELATION_INCLUDE_ID)
        \<and> pf = mapDMMFToParsedField f
                 \<lparr>ov_isRequired = Some True, ov_isNullable = Some (\<not> isRequired f),
                  ov_modelName = model_name m\<rparr>)"
  unfolding plain_member by (auto simp: plainSkips_def plainOverrides_def)

text \<open>The amended C4 at the article model: the relation is left out, the tagged
  foreign key is kept, required and not nullable.\<close>

theorem plain_fields_witness:
  "fieldList (computePlainZodParams exampleHelpers examplePaths articleModel [articleModel])
     = [mapDMMFToParsedField authorIdField
          \<lparr>ov_isRequired = Some True, ov_isNullable = Some False, ov_modelName = ''Article''\<rparr>]
   \<and> isRelation authorField
   \<and> isAnnotatedWith authorIdField DTO_RELATION_INCLUDE_ID"
proof -
  have out: "fieldList (computePlainZodParams exampleHelpers examplePaths articleModel [articleModel])
     = [mapDMMFToParsedField authorIdField
          \<lparr>ov_isRequired = Some True, ov_isNullable = Some False, ov_modelName = ''Article''\<rparr>]"
    by code_simp
  have rel: "isRelation authorField \<and> isAnnotatedWith authorIdField DTO_RELATION_INCLUDE_ID"
    by code_simp
  have "mapDMMFToParsedField authorIdField
          \<lparr>ov_isRequired = Some True, ov_isNullable = Some False, ov_modelName = ''Article''\<rparr>
        \<in> set (fieldList (computePlainZodParams exampleHelpers examplePaths articleModel [articleModel]))"
    unfolding out by simp
  then have "\<exists>f \<in> set (model_fields articleModel). \<not> isRelation f"
    unfolding plain_fields by blast
  with out rel show ?thesis by simp
qed

section \<open>Entity: imports and lazy relations\<close>

lemma isRelation_not_isType: "isRelation f \<Longrightarrow> \<not> isType f"
  by (simp add: isRelation_def isType_def)

lemma entityLazy_unfold:
  "entityLazy m ams f =
     (if isAnnotatedWith f DTO_ENTITY_HIDDEN \<or> hasCustomTypeOverride f then []
      else if isRelation f then [type f]
      else if isType f \<and> type f \<noteq> model_name m
              \<and> find (\<lambda>candidate. model_name candidate = type f) ams \<noteq> None
      then [type f] else [])"
  by (auto simp: entityLazy_def dest: isRelation_not_isType)

lemma entityImports_unfold:
  "entityImports t lib m ams f =
     (if isAnnotatedWith f DTO_ENTITY_HIDDEN \<or> hasCustomTypeOverride f \<or> type f = model_name m
      then []
      else if isRelation f
      then optionToList (schemaImport lib m ams entity entity
                           (entityZodSchemaName t) (entityZodSchemaFilename t) (type f))
      else if isType f
      then optionToList (schemaImport lib m ams entity dto
                           (plainZodSchemaName t) (plainZodSchemaFilename t) (type f))
      else [])"
  by (auto simp: entityImports_def dest: isRelation_not_isType)

text \<open>
  C6, as stated, fails: a self-referential relation field contributes an entry to
  \<open>lazyRelations\<close> (and no import).
\<close>

theorem self_relation_lazy_counterexample:
  "isRelation parentField
   \<and> \<not> hasCustomTypeOverride parentField
   \<and> type parentField = model_name categoryModel
   \<and> lazyRelations
        (computeEntityZodParams exampleHelpers examplePaths categoryModel [categoryModel])
      = [''Category'']
   \<and> importList
        (computeEntityZodParams exampleHelpers examplePaths categoryModel [categoryModel])
      = makeImportsFromZod"
  by code_simp

text \<open>
  C6, amended, for the entity deriver. What the deriver pushes is, field by field in
  model order, as follows; a field hidden from the entity or carrying a custom-type tag
  pushes nothing. A relation field appends its type to \<open>lazyRelations\<close> always, also when
  it refers to its own model or to a model missing from the registry; it registers an
  import of the target's entity schema if and only if it is not self-referential and the
  target is in the registry. An embedded-type field appends its type to \<open>lazyRelations\<close>
  and registers an import of the target's plain schema, both if and only if it is not
  self-referential and the target is in the registry. The registered imports are merged
  behind the validator library's import and the enum imports.
\<close>

theorem entity_imports_and_lazy:
  "lazyRelations (computeEntityZodParams t lib m allModels) =
     concat (map (\<lambda>f.
         if isAnnotatedWith f DTO_ENTITY_HIDDEN \<or> hasCustomTypeOverride f then []
         else if isRelation f then [type f]
         else if isType f \<and> type f \<noteq> model_name m
                 \<and> find (\<lambda>candidate. model_name candidate = type f) allModels \<noteq> None
         then [type f] else [])
       (model_fields m))
   \<and> importList (computeEntityZodParams t lib m allModels) =
     zipImportStatementParams
       (makeImportsFromZod
        @ collectEnumImports (fieldList (computeEntityZodParams t lib m allModels))
            (prismaClientImportPath (config t))
        @ concat (map (\<lambda>f.
            if isAnnotatedWith f DTO_ENTITY_HIDDEN \<or> hasCustomTypeOverride f
               \<or> type f = model_name m then []
            else if isRelation f
            then optionToList (schemaImport lib m allModels entity entity
                                 (entityZodSchemaName t) (entityZodSchemaFilename t) (type f))
            else if isType f
            then optionToList (schemaImport lib m allModels entity dto
                                 (plainZodSchemaName t) (plainZodSchemaFilename t) (type f))
            else [])
          (model_fields m)))"
proof -
  have lazy: "entityLazy m allModels = (\<lambda>f.
         if isAnnotatedWith f DTO_ENTITY_HIDDEN \<or> hasCustomTypeOverride f then []
         else if isRelation f then [type f]
         else if isType f \<and> type f \<noteq> model_name m
                 \<and> find (\<lambda>candidate. model_name candidate = type f) allModels \<noteq> None
         then [type f] else [])"
    by (rule ext) (rule entityLazy_unfold)
  have imps: "entityImports t lib m allModels = (\<lambda>f.
            if isAnnotatedWith f DTO_ENTITY_HIDDEN \<or> hasCustomTypeOverride f
               \<or> type f = model_name m then []
            else if isRelation f
            then optionToList (schemaImport lib m allModels entity entity
                                 (entityZodSchemaName t) (entityZodSchemaFilename t) (type f))
            else if isType f
            then optionToList (schemaImport lib m allModels entity dto
                                 (plainZodSchemaName t) (plainZodSchemaFilename t) (type f))
            else [])"
    by (rule ext) (rule entityImports_unfold)
  show ?thesis
    unfolding lazy[symmetric] imps[symmetric]
    by (simp add: computeEntityZodParams_def entityReduce_eq finish_def)
qed

text \<open>The amended C6 at the pet model: a relation to a user and an embedded address,
  both in the registry.\<close>

theorem entity_imports_and_lazy_witness:
  "lazyRelations
     (computeEntityZodParams exampleHelpers examplePaths petModel [petModel, userModel, addressType])
     = [''User'', ''Address'']
   \<and> importList
     (computeEntityZodParams exampleHelpers examplePaths petModel [petModel, userModel, addressType])
     = [\<lparr>import_from = ''zod'', destruct = [''z'']\<rparr>,
        \<lparr>import_from = ''./User.entity.schema'', destruct = [''UserEntitySchema'']\<rparr>,
        \<lparr>import_from = ''./Address.dto.schema'', destruct = [''AddressDtoSchema'']\<rparr>]"
proof -
  have fs: "model_fields petModel = [ownerField, homeField]" by code_simp
  have own: "isRelation ownerField \<and> \<not> isAnnotatedWith ownerField DTO_ENTITY_HIDDEN
             \<and> \<not> hasCustomTypeOverride ownerField \<and> type ownerField = ''User''"
    by code_simp
  have home: "isType homeField \<and> \<not> isRelation homeField
              \<and> \<not> isAnnotatedWith homeField DTO_ENTITY_HIDDEN
              \<and> \<not> hasCustomTypeOverride homeField \<and> type homeField = ''Address''"
    by code_simp
  have nm: "model_name petModel = ''Pet''" by code_simp
  have found: "find (\<lambda>candidate. model_name candidate = ''Address'')
                 [petModel, userModel, addressType] \<noteq> None"
    by code_simp
  have i1: "optionToList (schemaImport examplePaths petModel [petModel, userModel, addressType]
              entity entity (entityZodSchemaName exampleHelpers)
              (entityZodSchemaFilename exampleHelpers) ''User'')
            = [\<lparr>import_from = ''./User.entity.schema'', destruct = [''UserEntitySchema'']\<rparr>]"
    by code_simp
  have i2: "optionToList (schemaImport examplePaths petModel [petModel, userModel, addressType]
              entity dto (plainZodSchemaName exampleHelpers)
              (plainZodSchemaFilename exampleHelpers) ''Address'')
            = [\<lparr>import_from = ''./Address.dto.schema'', destruct = [''AddressDtoSchema'']\<rparr>]"
    by code_simp
  have en: "collectEnumImports
              (fieldList (computeEntityZodParams exampleHelpers examplePaths petModel
                            [petModel, userModel, addressType]))
              (prismaClientImportPath (config exampleHelpers)) = []"
    by code_simp
  have z: "zipImportStatementParams
             (makeImportsFromZod
              @ [\<lparr>import_from = ''./User.entity.schema'', destruct = [''UserEntitySchema'']\<rparr>,
                 \<lparr>import_from = ''./Address.dto.schema'', destruct = [''AddressDtoSchema'']\<rparr>])
           = [\<lparr>import_from = ''zod'', destruct = [''z'']\<rparr>,
              \<lparr>import_from = ''./User.entity.schema'', destruct = [''UserEntitySchema'']\<rparr>,
              \<lparr>import_from = ''./Address.dto.schema'', destruct = [''AddressDtoSchema'']\<rparr>]"
    by code_simp
  show ?thesis
    using entity_imports_and_lazy[of exampleHelpers examplePaths petModel
        "[petModel, userModel, addressType]"]
    by (simp add: fs own home nm found i1 i2 en z del: find.simps)
qed

section \<open>What the derivers write to their input\<close>

lemma forceWritable_idem: "forceWritable rs (forceWritable rs f) = forceWritable rs f"
  by (simp add: forceWritable_def isAnnotatedWith_def)

lemma getRelationScalars_cong:
  assumes "map name gs = map name fs" and "map relationFromFields gs = map relationFromFields fs"
  shows "getRelationScalars gs = getRelationScalars fs"
proof -
  have len: "length gs = length fs" using assms(1) by (metis length_map)
  have "map name (filter (\<lambda>f. s \<in> set (relationFromFields f)) gs)
          = map name (filter (\<lambda>f. s \<in> set (relationFromFields f)) fs)" for s
    using len assms
    by (induction gs fs rule: list_induct2) auto
  then show ?thesis
    unfolding getRelationScalars_def assms(2) by simp
qed

lemma getRelationScalars_forceWritable:
  "getRelationScalars (map (forceWritable rs) fs) = getRelationScalars fs"
  by (rule getRelationScalars_cong) (simp_all add: forceWritable_attrs)

lemma model_fields_update_simps:
  "typeImports lib (m\<lparr>model_fields := fs\<rparr>) ams namer filer = typeImports lib m ams namer filer"
  "typeLazy (m\<lparr>model_fields := fs\<rparr>) ams = typeLazy m ams"
  "createOverrides (m\<lparr>model_fields := fs\<rparr>) = createOverrides m"
  "updateOverrides (m\<lparr>model_fields := fs\<rparr>) = updateOverrides m"
  by (rule ext; simp add: typeImports_def typeLazy_def createOverrides_def updateOverrides_def
      schemaImport_def split: option.splits)+

lemma createCallback_forced:
  "createCallback t lib (m\<lparr>model_fields := fs\<rparr>) ams rs st (forceWritable rs f)
     = createCallback t lib m ams rs st f"
  by (cases st)
     (simp add: createCallback_eq forceWritable_idem model_fields_update_simps cong: if_cong)

lemma updateCallback_forced:
  "updateCallback t lib (m\<lparr>model_fields := fs\<rparr>) ams rs st (forceWritable rs f)
     = updateCallback t lib m ams rs st f"
  by (cases st)
     (simp add: updateCallback_eq forceWritable_idem model_fields_update_simps cong: if_cong)

lemma createReduce_forced:
  "createReduce t lib
     (m\<lparr>model_fields := map (forceWritable (map fst (getRelationScalars (model_fields m))))
                           (model_fields m)\<rparr>) ams
   = createReduce t lib m ams"
  by (simp add: createReduce_def getRelationScalars_forceWritable foldl_map
      createCallback_forced)

lemma updateReduce_forced:
  "updateReduce t lib
     (m\<lparr>model_fields := map (forceWritable (map fst (getRelationScalars (model_fields m))))
                           (model_fields m)\<rparr>) ams
   = updateReduce t lib m ams"
  by (simp add: updateReduce_def getRelationScalars_forceWritable foldl_map
      updateCallback_forced)

lemma create_model:
  "fst (computeCreateZodParams t lib m ams)
     = m\<lparr>model_fields := map (forceWritable (map fst (getRelationScalars (model_fields m))))
                            (model_fields m)\<rparr>"
  by (simp add: computeCreateZodParams_def createReduce_eq)

lemma update_model:
  "fst (computeUpdateZodParams t lib m ams)
     = m\<lparr>model_fields := map (forceWritable (map fst (getRelationScalars (model_fields m))))
                            (model_fields m)\<rparr>"
  by (simp add: computeUpdateZodParams_def updateReduce_eq)

lemma create_on_forced:
  "computeCreateZodParams t lib
     (m\<lparr>model_fields := map (forceWritable (map fst (getRelationScalars (model_fields m))))
                           (model_fields m)\<rparr>) ams
   = computeCreateZodParams t lib m ams"
  unfolding computeCreateZodParams_def createReduce_forced
  by (simp add: createReduce_eq)

lemma update_on_forced:
  "computeUpdateZodParams t lib
     (m\<lparr>model_fields := map (forceWritable (map fst (getRelationScalars (model_fields m))))
                           (model_fields m)\<rparr>) ams
   = computeUpdateZodParams t lib m ams"
  unfolding computeUpdateZodParams_def updateReduce_forced
  by (simp add: updateReduce_eq)

text \<open>
  C3, as stated, fails: the create deriver changes a field record of its input (a tagged
  read-only foreign key becomes writable), and the entity deriver puts out a different
  field set after the create deriver has run than before.
\<close>

theorem deriver_mutation_counterexample:
  "map isReadOnly (model_fields articleModel) = [True, False]
   \<and> map isReadOnly
        (model_fields
           (fst (computeCreateZodParams exampleHelpers examplePaths articleModel [articleModel])))
      = [False, False]
   \<and> map isReadOnly
        (fieldList (computeEntityZodParams exampleHelpers examplePaths articleModel [articleModel]))
      = [True, False]
   \<and> map isReadOnly
        (fieldList
           (computeEntityZodParams exampleHelpers examplePaths
              (fst (computeCreateZodParams exampleHelpers examplePaths articleModel [articleModel]))
              [articleModel]))
      = [False, False]"
  by code_simp

text \<open>
  C3, amended: the create and the update deriver write one attribute of their input. On
  every field that carries the "include relation id" tag and is a foreign-key scalar of
  the model they set \<open>isReadOnly\<close> to false; every other field and every other attribute
  is left as it was. Invoked again on the model they leave, in either order, they leave it
  unchanged and return the same result.
\<close>

theorem create_update_frame:
  "fst (computeCreateZodParams t lib m allModels) =
     m\<lparr>model_fields :=
         map (\<lambda>f. if isAnnotatedWith f DTO_RELATION_INCLUDE_ID
                      \<and> name f \<in> fst ` set (getRelationScalars (model_fields m))
                   then f\<lparr>isReadOnly := False\<rparr> else f)
           (model_fields m)\<rparr>
   \<and> fst (computeUpdateZodParams t lib m allModels) = fst (computeCreateZodParams t lib m allModels)
   \<and> computeCreateZodParams t lib (fst (computeCreateZodParams t lib m allModels)) allModels
       = computeCreateZodParams t lib m allModels
   \<and> computeCreateZodParams t lib (fst (computeUpdateZodParams t lib m allModels)) allModels
       = computeCreateZodParams t lib m allModels
   \<and> computeUpdateZodParams t lib (fst (computeUpdateZodParams t lib m allModels)) allModels
       = computeUpdateZodParams t lib m allModels
   \<and> computeUpdateZodParams t lib (fst (computeCreateZodParams t lib m allModels)) allModels
       = computeUpdateZodParams t lib m allModels"
proof -
  have fw: "forceWritable (map fst (getRelationScalars (model_fields m))) =
     (\<lambda>f. if isAnnotatedWith f DTO_RELATION_INCLUDE_ID
              \<and> name f \<in> fst ` set (getRelationScalars (model_fields m))
           then f\<lparr>isReadOnly := False\<rparr> else f)"
    by (rule ext) (simp add: forceWritable_def)
  show ?thesis
    unfolding create_model update_model create_on_forced update_on_forced
    by (simp add: fw)
qed

text \<open>The amended C3 at the article model.\<close>

theorem create_update_frame_witness:
  "model_fields
     (fst (computeCreateZodParams exampleHelpers examplePaths articleModel [articleModel]))
     = [authorIdField\<lparr>isReadOnly := False\<rparr>, authorField]
   \<and> computeCreateZodParams exampleHelpers examplePaths
        (fst (computeCreateZodParams exampleHelpers examplePaths articleModel [articleModel]))
        [articleModel]
      = computeCreateZodParams exampleHelpers examplePaths articleModel [articleModel]"
proof -
  have fs: "model_fields articleModel = [authorIdField, authorField]" by code_simp
  have a: "isAnnotatedWith authorIdField DTO_RELATION_INCLUDE_ID
           \<and> name authorIdField \<in> fst ` set (getRelationScalars [authorIdField, authorField])"
    by code_simp
  have b: "\<not> isAnnotatedWith authorField DTO_RELATION_INCLUDE_ID" by code_simp
  note frame = create_update_frame[of exampleHelpers examplePaths articleModel "[articleModel]"]
  from frame have
    "fst (computeCreateZodParams exampleHelpers examplePaths articleModel [articleModel]) =
       articleModel\<lparr>model_fields :=
         map (\<lambda>f. if isAnnotatedWith f DTO_RELATION_INCLUDE_ID
                      \<and> name f \<in> fst ` set (getRelationScalars (model_fields articleModel))
                   then f\<lparr>isReadOnly := False\<rparr> else f)
           (model_fields articleModel)\<rparr>"
    by (rule conjunct1)
  then have left: "model_fields
     (fst (computeCreateZodParams exampleHelpers examplePaths articleModel [articleModel]))
     = [authorIdField\<lparr>isReadOnly := False\<rparr>, authorField]"
    by (simp add: fs a b)
  from frame have again: "computeCreateZodParams exampleHelpers examplePaths
        (fst (computeCreateZodParams exampleHelpers examplePaths articleModel [articleModel]))
        [articleModel]
      = computeCreateZodParams exampleHelpers examplePaths articleModel [articleModel]"
    by blast
  from left again show ?thesis by (rule conjI)
qed

section \<open>Create: ids with a default value\<close>

lemma isReadOnly_forceWritable_iff:
  "isReadOnlyField (forceWritable rs f) \<longleftrightarrow>
     isReadOnlyField f
     \<and> \<not> (isAnnotatedWith f DTO_RELATION_INCLUDE_ID \<and> name f \<in> set rs)"
  by (simp add: forceWritable_def isReadOnlyField_def)

lemma create_names:
  assumes "distinct (map name (model_fields m))" and "f \<in> set (model_fields m)"
  shows "name f \<in> name ` set (fieldList (snd (computeCreateZodParams t lib m ams))) \<longleftrightarrow>
           \<not> createSkips t (map fst (getRelationScalars (model_fields m)))
                (forceWritable (map fst (getRelationScalars (model_fields m))) f)"
proof
  let ?rs = "map fst (getRelationScalars (model_fields m))"
  assume "name f \<in> name ` set (fieldList (snd (computeCreateZodParams t lib m ams)))"
  then obtain pf where pf: "pf \<in> set (fieldList (snd (computeCreateZodParams t lib m ams)))"
    and n: "name pf = name f" by auto
  from pf obtain g where g: "g \<in> set (model_fields m)"
    and keep: "\<not> createSkips t ?rs (forceWritable ?rs g)"
    and pfg: "pf = mapDMMFToParsedField (forceWritable ?rs g)
                     (createOverrides m (forceWritable ?rs g))"
    unfolding create_member by blast
  have "name pf = name g" by (simp add: pfg mapDMMF_attrs forceWritable_attrs)
  with n have "name g = name f" by simp
  with assms g have "g = f" by (meson distinct_map inj_onD)
  with keep show "\<not> createSkips t ?rs (forceWritable ?rs f)" by simp
next
  let ?rs = "map fst (getRelationScalars (model_fields m))"
  let ?pf = "mapDMMFToParsedField (forceWritable ?rs f) (createOverrides m (forceWritable ?rs f))"
  assume "\<not> createSkips t ?rs (forceWritable ?rs f)"
  with assms(2) have "?pf \<in> set (fieldList (snd (computeCreateZodParams t lib m ams)))"
    unfolding create_member by blast
  moreover have "name ?pf = name f" by (simp add: mapDMMF_attrs forceWritable_attrs)
  ultimately show "name f \<in> name ` set (fieldList (snd (computeCreateZodParams t lib m ams)))"
    by force
qed

lemma createSkips_tagged_id:
  assumes "isIdWithDefaultValue f"
  shows "createSkips t rs (forceWritable rs f) \<longleftrightarrow>
     (isReadOnlyField f \<and> \<not> (isAnnotatedWith f DTO_RELATION_INCLUDE_ID \<and> name f \<in> set rs))
     \<or> isAnnotatedWith f DTO_CREATE_HIDDEN \<or> isRelation f
     \<or> (\<not> isAnnotatedWith f DTO_RELATION_INCLUDE_ID \<and> name f \<in> set rs)
     \<or> (\<not> isAnnotatedWith f DTO_CREATE_OPTIONAL \<and> \<not> isAnnotatedWith f DTO_CREATE_REQUIRED)"
  using assms
  by (auto simp: createSkips_def classifiers_forceWritable forceWritable_attrs
      isReadOnly_forceWritable_iff)

text \<open>
  C7, as stated, fails: an id field with a default-value descriptor that carries the
  create-required tag is absent from the create representation when it is also hidden
  from create, and when it is a read-only foreign-key scalar without the "include
  relation id" tag.
\<close>

theorem create_required_id_counterexample:
  "isIdWithDefaultValue serialHiddenField
   \<and> isAnnotatedWith serialHiddenField DTO_CREATE_REQUIRED
   \<and> model_fields invoiceModel = [serialHiddenField]
   \<and> fieldList (snd (computeCreateZodParams exampleHelpers examplePaths
                        invoiceModel [invoiceModel])) = []
   \<and> isIdWithDefaultValue passportIdField
   \<and> isAnnotatedWith passportIdField DTO_CREATE_REQUIRED
   \<and> model_fields passportModel = [passportIdField, holderField]
   \<and> fieldList (snd (computeCreateZodParams exampleHelpers examplePaths
                        passportModel [passportModel])) = []"
  by code_simp

text \<open>
  C7, amended: in the create representation (field names being unique within a model) an
  id field with a default-value descriptor and neither the create-optional nor the
  create-required tag is absent from the output. The same field with the create-required
  tag is present, and then derived required, exactly when none of the deriver's earlier
  exclusions applies to it: it is not hidden from create, not a relation, not a
  foreign-key scalar without the "include relation id" tag, and not read-only (a
  foreign-key scalar with that tag counts as writable).
\<close>

theorem create_id_with_default:
  assumes f: "f \<in> set (model_fields m)" and idd: "isIdWithDefaultValue f"
  shows "(\<not> isAnnotatedWith f DTO_CREATE_OPTIONAL \<and> \<not> isAnnotatedWith f DTO_CREATE_REQUIRED
            \<and> distinct (map name (model_fields m))
          \<longrightarrow> name f \<notin> name ` set (fieldList (snd (computeCreateZodParams t lib m allModels))))
       \<and> (isAnnotatedWith f DTO_CREATE_REQUIRED
            \<and> (isReadOnlyField f
                 \<longrightarrow> isAnnotatedWith f DTO_RELATION_INCLUDE_ID
                     \<and> name f \<in> fst ` set (getRelationScalars (model_fields m)))
            \<and> \<not> isAnnotatedWith f DTO_CREATE_HIDDEN \<and> \<not> isRelation f
            \<and> (name f \<in> fst ` set (getRelationScalars (model_fields m))
                 \<longrightarrow> isAnnotatedWith f DTO_RELATION_INCLUDE_ID)
          \<longrightarrow> (\<exists>pf \<in> set (fieldList (snd (computeCreateZodParams t lib m allModels))).
                 name pf = name f \<and> isRequired pf))
       \<and> (isAnnotatedWith f DTO_CREATE_REQUIRED \<and> distinct (map name (model_fields m))
            \<and> ((isReadOnlyField f
                  \<and> \<not> (isAnnotatedWith f DTO_RELATION_INCLUDE_ID
                        \<and> name f \<in> fst ` set (getRelationScalars (model_fields m))))
                \<or> isAnnotatedWith f DTO_CREATE_HIDDEN \<or> isRelation f
                \<or> (name f \<in> fst ` set (getRelationScalars (model_fields m))
                    \<and> \<not> isAnnotatedWith f DTO_RELATION_INCLUDE_ID))
          \<longrightarrow> name f \<notin> name ` set (fieldList (snd (computeCreateZodParams t lib m allModels))))"
proof (intro conjI impI)
  let ?rs = "map fst (getRelationScalars (model_fields m))"
  assume a: "\<not> isAnnotatedWith f DTO_CREATE_OPTIONAL \<and> \<not> isAnnotatedWith f DTO_CREATE_REQUIRED
            \<and> distinct (map name (model_fields m))"
  then have "createSkips t ?rs (forceWritable ?rs f)"
    unfolding createSkips_tagged_id[OF idd] by simp
  with a f show "name f \<notin> name ` set (fieldList (snd (computeCreateZodParams t lib m allModels)))"
    by (simp add: create_names)
next
  let ?rs = "map fst (getRelationScalars (model_fields m))"
  assume a: "isAnnotatedWith f DTO_CREATE_REQUIRED
            \<and> (isReadOnlyField f
                 \<longrightarrow> isAnnotatedWith f DTO_RELATION_INCLUDE_ID
                     \<and> name f \<in> fst ` set (getRelationScalars (model_fields m)))
            \<and> \<not> isAnnotatedWith f DTO_CREATE_HIDDEN \<and> \<not> isRelation f
            \<and> (name f \<in> fst ` set (getRelationScalars (model_fields m))
                 \<longrightarrow> isAnnotatedWith f DTO_RELATION_INCLUDE_ID)"
  let ?pf = "mapDMMFToParsedField (forceWritable ?rs f) (createOverrides m (forceWritable ?rs f))"
  have keep: "\<not> createSkips t ?rs (forceWritable ?rs f)"
    unfolding createSkips_tagged_id[OF idd] using a by auto
  with f have "?pf \<in> set (fieldList (snd (computeCreateZodParams t lib m allModels)))"
    unfolding create_member by blast
  moreover have "name ?pf = name f \<and> isRequired ?pf"
    using a by (simp add: mapDMMF_attrs forceWritable_attrs createOverrides_def
        classifiers_forceWritable)
  ultimately show "\<exists>pf \<in> set (fieldList (snd (computeCreateZodParams t lib m allModels))).
                 name pf = name f \<and> isRequired pf"
    by blast
next
  let ?rs = "map fst (getRelationScalars (model_fields m))"
  assume a: "isAnnotatedWith f DTO_CREATE_REQUIRED \<and> distinct (map name (model_fields m))
            \<and> ((isReadOnlyField f
                  \<and> \<not> (isAnnotatedWith f DTO_RELATION_INCLUDE_ID
                        \<and> name f \<in> fst ` set (getRelationScalars (model_fields m))))
                \<or> isAnnotatedWith f DTO_CREATE_HIDDEN \<or> isRelation f
                \<or> (name f \<in> fst ` set (getRelationScalars (model_fields m))
                    \<and> \<not> isAnnotatedWith f DTO_RELATION_INCLUDE_ID))"
  then have "createSkips t ?rs (forceWritable ?rs f)"
    unfolding createSkips_tagged_id[OF idd] by auto
  with a f show "name f \<notin> name ` set (fieldList (snd (computeCreateZodParams t lib m allModels)))"
    by (simp add: create_names)
qed

text \<open>The amended C7 at an auto-increment id: absent without a tag, present and required
  with the create-required tag, absent again when it is also hidden from create.\<close>

theorem create_id_with_default_witness:
  "isIdWithDefaultValue serialField
   \<and> name serialField
       \<notin> name ` set (fieldList (snd (computeCreateZodParams exampleHelpers examplePaths
                                       counterModel [counterModel])))
   \<and> isIdWithDefaultValue serialRequiredField
   \<and> (\<exists>pf \<in> set (fieldList (snd (computeCreateZodParams exampleHelpers examplePaths
                                     ticketModel [ticketModel]))).
        name pf = name serialRequiredField \<and> isRequired pf)
   \<and> isIdWithDefaultValue serialHiddenField
   \<and> name serialHiddenField
       \<notin> name ` set (fieldList (snd (computeCreateZodParams exampleHelpers examplePaths
                                       invoiceModel [invoiceModel])))"
proof -
  have m1: "serialField \<in> set (model_fields counterModel)" by code_simp
  have d1: "isIdWithDefaultValue serialField" by code_simp
  have h1: "\<not> isAnnotatedWith serialField DTO_CREATE_OPTIONAL
            \<and> \<not> isAnnotatedWith serialField DTO_CREATE_REQUIRED
            \<and> distinct (map name (model_fields counterModel))"
    by code_simp
  have m2: "serialRequiredField \<in> set (model_fields ticketModel)" by code_simp
  have d2: "isIdWithDefaultValue serialRequiredField" by code_simp
  have h2: "isAnnotatedWith serialRequiredField DTO_CREATE_REQUIRED
            \<and> \<not> isReadOnlyField serialRequiredField
            \<and> \<not> isAnnotatedWith serialRequiredField DTO_CREATE_HIDDEN
            \<and> \<not> isRelation serialRequiredField"
    by code_simp
  have h3: "name serialRequiredField \<notin> fst ` set (getRelationScalars (model_fields ticketModel))"
    by code_simp
  have m3: "serialHiddenField \<in> set (model_fields invoiceModel)" by code_simp
  have d3: "isIdWithDefaultValue serialHiddenField" by code_simp
  have h4: "isAnnotatedWith serialHiddenField DTO_CREATE_REQUIRED
            \<and> distinct (map name (model_fields invoiceModel))
            \<and> isAnnotatedWith serialHiddenField DTO_CREATE_HIDDEN"
    by code_simp
  from create_id_with_default[OF m1 d1, of exampleHelpers examplePaths "[counterModel]"] h1
  have absent: "name serialField
       \<notin> name ` set (fieldList (snd (computeCreateZodParams exampleHelpers examplePaths
                                       counterModel [counterModel])))"
    by blast
  from create_id_with_default[OF m2 d2, of exampleHelpers examplePaths "[ticketModel]"] h2 h3
  have present: "\<exists>pf \<in> set (fieldList (snd (computeCreateZodParams exampleHelpers examplePaths
                                     ticketModel [ticketModel]))).
        name pf = name serialRequiredField \<and> isRequired pf"
    by blast
  from create_id_with_default[OF m3 d3, of exampleHelpers examplePaths "[invoiceModel]"] h4
  have hidden: "name serialHiddenField
       \<notin> name ` set (fieldList (snd (computeCreateZodParams exampleHelpers examplePaths
                                       invoiceModel [invoiceModel])))"
    by blast
  from d1 absent d2 present d3 hidden show ?thesis by blast
qed

section \<open>Connect: one candidate and several\<close>

lemma connect_fieldList:
  "fieldList (computeConnectZodParams t m) =
     map (\<lambda>field. mapDMMFToParsedField field
            (if length (allUniqueFields m) > 1
             then \<lparr>ov_isRequired = Some False, ov_isNullable = Some False,
                   ov_modelName = model_name m\<rparr>
             else \<lparr>ov_isRequired = None, ov_isNullable = None, ov_modelName = model_name m\<rparr>))
       (allUniqueFields m)"
  by (simp add: computeConnectZodParams_def Let_def finish_simps)

text \<open>
  C8, as stated, fails: a model whose only candidate is a schema-optional unique field
  (no id) gets that field derived optional in the connect representation, and its derived
  \<open>isNullable\<close> is absent rather than false.
\<close>

theorem connect_single_optional_counterexample:
  "isUnique emailField \<and> \<not> isId emailField
   \<and> model_fields subscriberModel = [emailField]
   \<and> map isRequired (fieldList (computeConnectZodParams exampleHelpers subscriberModel)) = [False]
   \<and> map isNullable (fieldList (computeConnectZodParams exampleHelpers subscriberModel)) = [None]"
  by code_simp

text \<open>
  C8, amended: in the connect representation, where the fields not hidden from connect
  hold no id and exactly one unique field, that field is the only output field and keeps
  its schema-level \<open>isRequired\<close>, and no \<open>isNullable\<close> is derived for it (the compiler reads
  an absent \<open>isNullable\<close> as not nullable); where they hold one id and two further unique
  fields, of three different names, the three fields are the output, each derived optional
  (\<open>isRequired\<close> false) and non-nullable (\<open>isNullable\<close> false).
\<close>

theorem connect_candidates:
  "(filter (\<lambda>field. \<not> isAnnotatedWith field DTO_CONNECT_HIDDEN \<and> isId field) (model_fields m) = []
      \<and> filter (\<lambda>field. \<not> isAnnotatedWith field DTO_CONNECT_HIDDEN \<and> isUnique field)
            (model_fields m) = [u]
    \<longrightarrow> fieldList (computeConnectZodParams t m)
          = [mapDMMFToParsedField u
               \<lparr>ov_isRequired = None, ov_isNullable = None, ov_modelName = model_name m\<rparr>]
        \<and> map isRequired (fieldList (computeConnectZodParams t m)) = [isRequired u]
        \<and> map isNullable (fieldList (computeConnectZodParams t m)) = [None])
   \<and> (filter (\<lambda>field. \<not> isAnnotatedWith field DTO_CONNECT_HIDDEN \<and> isId field) (model_fields m) = [a]
      \<and> filter (\<lambda>field. \<not> isAnnotatedWith field DTO_CONNECT_HIDDEN \<and> isUnique field)
            (model_fields m) = [b, c]
      \<and> distinct [name a, name b, name c]
    \<longrightarrow> map name (fieldList (computeConnectZodParams t m)) = [name a, name b, name c]
        \<and> map isRequired (fieldList (computeConnectZodParams t m)) = [False, False, False]
        \<and> map isNullable (fieldList (computeConnectZodParams t m))
            = [Some False, Some False, Some False])"
  by (auto simp: connect_fieldList allUniqueFields_def isIdField_def isUniqueField_def
      mapDMMF_attrs)

text \<open>The amended C8 at a model with one required unique field and at a model with an
  id and two unique fields.\<close>

theorem connect_candidates_witness:
  "map isRequired (fieldList (computeConnectZodParams exampleHelpers memberModel)) = [True]
   \<and> map isNullable (fieldList (computeConnectZodParams exampleHelpers memberModel)) = [None]
   \<and> map name (fieldList (computeConnectZodParams exampleHelpers accountModel))
       = [''id'', ''handle'', ''phone'']
   \<and> map isRequired (fieldList (computeConnectZodParams exampleHelpers accountModel))
       = [False, False, False]
   \<and> map isNullable (fieldList (computeConnectZodParams exampleHelpers accountModel))
       = [Some False, Some False, Some False]"
proof -
  have s1: "filter (\<lambda>field. \<not> isAnnotatedWith field DTO_CONNECT_HIDDEN \<and> isId field)
              (model_fields memberModel) = []"
    by code_simp
  have s2: "filter (\<lambda>field. \<not> isAnnotatedWith field DTO_CONNECT_HIDDEN \<and> isUnique field)
              (model_fields memberModel) = [handleField]"
    by code_simp
  have s3: "isRequired handleField" by code_simp
  have t1: "filter (\<lambda>field. \<not> isAnnotatedWith field DTO_CONNECT_HIDDEN \<and> isId field)
              (model_fields accountModel) = [serialField]"
    by code_simp
  have t2: "filter (\<lambda>field. \<not> isAnnotatedWith field DTO_CONNECT_HIDDEN \<and> isUnique field)
              (model_fields accountModel) = [handleField, phoneField]"
    by code_simp
  have t3: "distinct [name serialField, name handleField, name phoneField]" by code_simp
  have t4: "[name serialField, name handleField, name phoneField] = [''id'', ''handle'', ''phone'']"
    by code_simp
  from connect_candidates[where m = memberModel and u = handleField and t = exampleHelpers] s1 s2 s3
  have one: "map isRequired (fieldList (computeConnectZodParams exampleHelpers memberModel)) = [True]
   \<and> map isNullable (fieldList (computeConnectZodParams exampleHelpers memberModel)) = [None]"
    by (simp add: mapDMMF_attrs)
  from connect_candidates[where m = accountModel and a = serialField and b = handleField
      and c = phoneField and t = exampleHelpers]
    t1 t2 t3 t4
  have three: "map name (fieldList (computeConnectZodParams exampleHelpers accountModel))
       = [''id'', ''handle'', ''phone'']
   \<and> map isRequired (fieldList (computeConnectZodParams exampleHelpers accountModel))
       = [False, False, False]
   \<and> map isNullable (fieldList (computeConnectZodParams exampleHelpers accountModel))
       = [Some False, Some False, Some False]"
    by (simp add: mapDMMF_attrs)
  from one three show ?thesis by blast
qed

section \<open>Custom-type tags\<close>

lemma entity_custom_type_pushes_nothing:
  "hasCustomTypeOverride f \<Longrightarrow> entityImports t lib m ams f = [] \<and> entityLazy m ams f = []"
  by (simp add: entityImports_def entityLazy_def)

lemma entity_all_custom_types:
  assumes "list_all hasCustomTypeOverride (model_fields m)"
  shows "lazyRelations (computeEntityZodParams t lib m ams) = []"
proof -
  have "entityLazy m ams f = []" if "f \<in> set (model_fields m)" for f
    using that assms by (simp add: entity_custom_type_pushes_nothing list_all_iff)
  then show ?thesis
    by (simp add: computeEntityZodParams_def entityReduce_eq finish_simps)
qed

text \<open>
  C5 at its failing input: an embedded-type field that carries the "custom type override"
  tag and whose target is in the registry. The entity deriver pushes nothing for it; the
  plain, the create and the update deriver each register the import of the target's schema
  and record the target in \<open>lazyRelations\<close>.
\<close>

theorem custom_type_import_evaluation:
  "hasCustomTypeOverride addressField
   \<and> isType addressField
   \<and> lazyRelations
        (computeEntityZodParams exampleHelpers examplePaths customerModel
           [customerModel, addressType]) = []
   \<and> importList
        (computeEntityZodParams exampleHelpers examplePaths customerModel
           [customerModel, addressType]) = makeImportsFromZod
   \<and> lazyRelations
        (computePlainZodParams exampleHelpers examplePaths customerModel
           [customerModel, addressType]) = [''Address'']
   \<and> importList
        (computePlainZodParams exampleHelpers examplePaths customerModel
           [customerModel, addressType])
      = [\<lparr>import_from = ''zod'', destruct = [''z'']\<rparr>,
         \<lparr>import_from = ''./Address.dto.schema'', destruct = [''AddressDtoSchema'']\<rparr>]
   \<and> lazyRelations
        (snd (computeCreateZodParams exampleHelpers examplePaths customerModel
                [customerModel, addressType])) = [''Address'']
   \<and> lazyRelations
        (snd (computeUpdateZodParams exampleHelpers examplePaths customerModel
                [customerModel, addressType])) = [''Address'']"
  by code_simp

section \<open>Output-file-type mode\<close>

lemma mapThrowing_all_fail:
  "xs \<noteq> [] \<Longrightarrow> (\<And>x. f x = Inl e) \<Longrightarrow> mapThrowing f xs = Inl e"
  by (cases xs) simp_all

lemma modelFilesOf_unknown:
  "generateFileTypes p \<noteq> ''all'' \<Longrightarrow> generateFileTypes p \<noteq> ''dto''
   \<Longrightarrow> generateFileTypes p \<noteq> ''entity''
   \<Longrightarrow> modelFilesOf p m = Inl UnknownGenerateFileTypes"
  by (simp add: modelFilesOf_def)

lemma run_entity_only_aborts:
  assumes "generateFileTypes p = ''entity''"
    and "filter (\<lambda>m. \<not> isAnnotatedWith m DTO_IGNORE_MODEL) (types (dmmf p)) \<noteq> []"
  shows "run p = Inl EntityOnlyWithComplexTypes"
  using assms by (simp add: run_def filteredTypes_def)

lemma run_unknown_mode_aborts:
  assumes "generateFileTypes p \<noteq> ''all''" and "generateFileTypes p \<noteq> ''dto''"
    and "generateFileTypes p \<noteq> ''entity''"
    and "filter (\<lambda>m. \<not> isAnnotatedWith m DTO_IGNORE_MODEL) (models (dmmf p)) \<noteq> []"
  shows "run p = Inl UnknownGenerateFileTypes"
proof -
  have "filteredModels p \<noteq> []" using assms(4) by (simp add: filteredModels_def)
  then have "mapThrowing (modelFilesOf p) (filteredModels p) = Inl UnknownGenerateFileTypes"
    by (rule mapThrowing_all_fail) (rule modelFilesOf_unknown[OF assms(1-3)])
  then show ?thesis using assms(3) by (simp add: run_def Let_def)
qed

lemma run_unknown_mode_without_models:
  assumes "generateFileTypes p \<noteq> ''entity''"
    and "filter (\<lambda>m. \<not> isAnnotatedWith m DTO_IGNORE_MODEL) (models (dmmf p)) = []"
  shows "\<exists>files. run p = Inr files"
  using assms by (simp add: run_def Let_def filteredModels_def)

text \<open>
  C9 at its failing input: the output-file-type mode is none of \<^verbatim>\<open>all\<close>, \<^verbatim>\<open>dto\<close>,
  \<^verbatim>\<open>entity\<close>, and the registry holds an embedded type and no model. The run does not
  abort; it returns the three files of the embedded type.
\<close>

theorem unknown_mode_without_models_evaluation:
  "generateFileTypes typesOnlyRun = ''bogus''
   \<and> models (dmmf typesOnlyRun) = []
   \<and> run typesOnlyRun
      = Inr [\<lparr>fileDir = ''out'', fileRole = CreateDto, fileModel = ''Address''\<rparr>,
             \<lparr>fileDir = ''out'', fileRole = UpdateDto, fileModel = ''Address''\<rparr>,
             \<lparr>fileDir = ''out'', fileRole = PlainDto, fileModel = ''Address''\<rparr>]"
  by code_simp

lemma run_examples:
  "run entityOnlyRun = Inl EntityOnlyWithComplexTypes"
  "run oneModelRun = Inl UnknownGenerateFileTypes"
  by code_simp+

section \<open>Scalar table and fallback\<close>

lemma scalarToZod_table:
  "scalarToZod ''String'' = JsString ''z.string()''"
  "scalarToZod ''Boolean'' = JsString ''z.boolean()''"
  "scalarToZod ''Int'' = JsString ''z.int()''"
  "scalarToZod ''BigInt'' = JsString ''z.bigint()''"
  "scalarToZod ''Float'' = JsString ''z.number()''"
  "scalarToZod ''Decimal'' = JsString ''z.number()''"
  "scalarToZod ''DateTime'' = JsString ''z.date()''"
  "scalarToZod ''Json'' = JsString ''z.record(z.any())''"
  "scalarToZod ''Bytes'' = JsString ''z.instanceof(Buffer)''"
  by (simp_all add: scalarToZod_def getProperty_def PrismaScalarToZod_def)

lemma scalarToZod_fallback:
  assumes "map_of PrismaScalarToZod scalar = None" and "scalar \<notin> set ObjectPrototypeKeys"
  shows "scalarToZod scalar = JsString ''z.any()''"
  using assms by (simp add: scalarToZod_def getProperty_def)

lemma scalarToZod_inherited:
  assumes "scalar \<in> set ObjectPrototypeKeys"
  shows "scalarToZod scalar = JsInherited scalar"
proof -
  have "list_all (\<lambda>k. map_of PrismaScalarToZod k = None) ObjectPrototypeKeys"
    by code_simp
  with assms have "map_of PrismaScalarToZod scalar = None"
    by (simp add: list_all_iff)
  with assms show ?thesis by (simp add: scalarToZod_def getProperty_def)
qed

lemma scalarToZod_total_cases:
  "(\<exists>v. map_of PrismaScalarToZod scalar = Some v \<and> scalarToZod scalar = JsString v)
   \<or> scalarToZod scalar = JsInherited scalar
   \<or> scalarToZod scalar = JsString ''z.any()''"
proof (cases "map_of PrismaScalarToZod scalar")
  case None
  then show ?thesis
    using scalarToZod_fallback[of scalar] scalarToZod_inherited[of scalar] by blast
next
  case (Some v)
  have "list_all (\<lambda>entry. snd entry \<noteq> []) PrismaScalarToZod"
    by code_simp
  moreover from Some have "(scalar, v) \<in> set PrismaScalarToZod"
    by (rule map_of_SomeD)
  ultimately have "v \<noteq> []"
    by (auto simp: list_all_iff)
  with Some show ?thesis by (simp add: scalarToZod_def getProperty_def)
qed

text \<open>
  C10 at its failing input: the type name \<^verbatim>\<open>constructor\<close> is absent from the table, and
  the lookup \<^verbatim>\<open>PrismaScalarToZod[scalar]\<close> finds the member every object inherits under
  that name. It is truthy, so the fallback is not taken: \<^verbatim>\<open>scalarToZod\<close> returns the
  inherited function, and a field of that type compiles to the function's text instead
  of the opaque validator.
\<close>

theorem inherited_key_evaluation:
  "map_of PrismaScalarToZod ''constructor'' = None
   \<and> scalarToZod ''constructor'' = JsInherited ''constructor''
   \<and> scalarToZod ''constructor'' \<noteq> JsString ''z.any()''
   \<and> fieldsToZodProps
        [mapDMMFToParsedField (scalarField ''shape'' ''constructor'')
           \<lparr>ov_isRequired = Some True, ov_isNullable = Some False, ov_modelName = ''Area''\<rparr>]
        \<lparr>schemaName = None, isUpdateSchema = Some False\<rparr>
      = ''  shape: function Object() { [native code] },''"
  by code_simp

end
